theory Spec2Isabelle
  imports Main
begin

section \<open>Preliminaries: Python values\<close>

text \<open>
  A Python \<open>str\<close> is modelled as a \<open>string\<close> whose characters are read as the code
  points 0..255, so \<open>length\<close> is Python's \<open>len\<close> on that range.  A \<open>UUID\<close> is its
  canonical text, a \<open>datetime\<close> is a number of microseconds; \<open>datetime.utcnow()\<close> is
  an argument of every operation that reads the clock.
\<close>

type_synonym uuid = string
type_synonym datetime = int

datatype error =
    ValueError string
  | BlogPostNotFoundError uuid
  | CommentNotFoundError uuid
  | UserNotFoundError string
  | DuplicateBlogPostError uuid
  | DuplicateCommentError uuid
  | DuplicateUserError string string
  | TokenInvalidError string
  | BlogPostRepositoryError string
  | CommentRepositoryError string
  | UserRepositoryError string
  | TypeError string

text \<open>\<open>str.isspace\<close>, \<open>str.isupper\<close>, \<open>str.islower\<close>, \<open>str.isdigit\<close> on one character.\<close>

definition py_isspace :: "char \<Rightarrow> bool" where
  "py_isspace c =
     (let n = (of_char c :: nat)
      in (9 \<le> n \<and> n \<le> 13) \<or> (28 \<le> n \<and> n \<le> 32) \<or> n = 133 \<or> n = 160)"

definition py_isupper :: "char \<Rightarrow> bool" where
  "py_isupper c =
     (let n = (of_char c :: nat)
      in (65 \<le> n \<and> n \<le> 90) \<or> (192 \<le> n \<and> n \<le> 214) \<or> (216 \<le> n \<and> n \<le> 222))"

definition py_islower :: "char \<Rightarrow> bool" where
  "py_islower c =
     (let n = (of_char c :: nat)
      in (97 \<le> n \<and> n \<le> 122) \<or> n = 170 \<or> n = 181 \<or> n = 186
         \<or> (223 \<le> n \<and> n \<le> 246) \<or> (248 \<le> n \<and> n \<le> 255))"

definition py_isdigit :: "char \<Rightarrow> bool" where
  "py_isdigit c =
     (let n = (of_char c :: nat)
      in (48 \<le> n \<and> n \<le> 57) \<or> n = 178 \<or> n = 179 \<or> n = 185)"

text \<open>\<open>str.strip()\<close> and \<open>str.lower()\<close>.\<close>

definition strip :: "string \<Rightarrow> string" where
  "strip s = rev (dropWhile py_isspace (rev (dropWhile py_isspace s)))"

definition lower_char :: "char \<Rightarrow> char" where
  "lower_char c =
     (let n = (of_char c :: nat)
      in if (65 \<le> n \<and> n \<le> 90) \<or> (192 \<le> n \<and> n \<le> 214) \<or> (216 \<le> n \<and> n \<le> 222)
         then char_of (n + 32) else c)"

definition lower :: "string \<Rightarrow> string" where
  "lower s = map lower_char s"

text \<open>The character classes of the two regular expressions of \<open>user.py\<close>.\<close>

definition ascii_alnum :: "char \<Rightarrow> bool" where
  "ascii_alnum c =
     (let n = (of_char c :: nat)
      in (97 \<le> n \<and> n \<le> 122) \<or> (65 \<le> n \<and> n \<le> 90) \<or> (48 \<le> n \<and> n \<le> 57))"

definition ascii_alpha :: "char \<Rightarrow> bool" where
  "ascii_alpha c =
     (let n = (of_char c :: nat)
      in (97 \<le> n \<and> n \<le> 122) \<or> (65 \<le> n \<and> n \<le> 90))"

section \<open>Comment entity (\<open>domain/entities/comment.py\<close>)\<close>

record comment =
  c_content :: string
  c_blog_post_id :: uuid
  c_id :: uuid
  c_author_name :: string
  c_author_email :: string
  c_created_at :: datetime
  c_updated_at :: datetime
  c_is_approved :: bool

text \<open>
  A method that mutates \<open>self\<close> returns the pair of its outcome (\<open>Inl\<close> the exception
  raised, \<open>Inr ()\<close> a normal return) and the entity as it is after the call.
\<close>

definition c_validate_content :: "comment \<Rightarrow> (error + unit) \<times> comment" where
  "c_validate_content c =
     (if strip (c_content c) = [] then (Inl (ValueError ''Content cannot be empty''), c)
      else if length (c_content c) > 1000
        then (Inl (ValueError ''Content cannot exceed 1000 characters''), c)
      else (Inr (), c))"

definition c_validate_author_name :: "comment \<Rightarrow> (error + unit) \<times> comment" where
  "c_validate_author_name c =
     (if length (c_author_name c) > 100
        then (Inl (ValueError ''Author name cannot exceed 100 characters''), c)
      else (Inr (), c))"

definition c_validate_author_email :: "comment \<Rightarrow> (error + unit) \<times> comment" where
  "c_validate_author_email c =
     (if length (c_author_email c) > 255
        then (Inl (ValueError ''Author email cannot exceed 255 characters''), c)
      else if c_author_email c \<noteq> [] \<and> CHR ''@'' \<notin> set (c_author_email c)
        then (Inl (ValueError ''Author email must be a valid email address''), c)
      else (Inr (), c))"

text \<open>
  The dataclass constructor with \<open>__post_init__\<close>.  The two timestamps are two calls of
  \<open>datetime.utcnow\<close>, \<open>created_at\<close> first.  (\<open>_validate_blog_post_id\<close> is a type check.)
\<close>

definition Comment_init ::
  "string \<Rightarrow> uuid \<Rightarrow> uuid \<Rightarrow> string \<Rightarrow> string \<Rightarrow> datetime \<Rightarrow> datetime \<Rightarrow> bool \<Rightarrow> error + comment" where
  "Comment_init content blog_post_id new_id author_name author_email t_created t_updated approved =
     (let c = \<lparr>c_content = content, c_blog_post_id = blog_post_id, c_id = new_id,
                c_author_name = author_name, c_author_email = author_email,
                c_created_at = t_created, c_updated_at = t_updated, c_is_approved = approved\<rparr>
      in case c_validate_content c of
           (Inl e, _) \<Rightarrow> Inl e
         | (Inr _, c1) \<Rightarrow>
             (case c_validate_author_name c1 of
                (Inl e, _) \<Rightarrow> Inl e
              | (Inr _, c2) \<Rightarrow>
                  (case c_validate_author_email c2 of
                     (Inl e, _) \<Rightarrow> Inl e
                   | (Inr _, c3) \<Rightarrow> Inr c3)))"

definition c_update_content :: "comment \<Rightarrow> string \<Rightarrow> datetime \<Rightarrow> (error + unit) \<times> comment" where
  "c_update_content c new_content now =
     (let old_content = c_content c;
          c1 = c\<lparr>c_content := new_content\<rparr>
      in case c_validate_content c1 of
           (Inr _, c2) \<Rightarrow> (Inr (), c2\<lparr>c_updated_at := now\<rparr>)
         | (Inl e, c2) \<Rightarrow> (Inl e, c2\<lparr>c_content := old_content\<rparr>))"

definition update_author_info ::
  "comment \<Rightarrow> string option \<Rightarrow> string option \<Rightarrow> datetime \<Rightarrow> (error + unit) \<times> comment" where
  "update_author_info c name email now =
     (let old_name = c_author_name c;
          old_email = c_author_email c;
          rollback = (\<lambda>e c'. (Inl e, c'\<lparr>c_author_name := old_name, c_author_email := old_email\<rparr>));
          r1 = (case name of
                  None \<Rightarrow> (Inr (), c)
                | Some n \<Rightarrow> c_validate_author_name (c\<lparr>c_author_name := n\<rparr>))
      in case r1 of
           (Inl e, c1) \<Rightarrow> rollback e c1
         | (Inr _, c1) \<Rightarrow>
             (let r2 = (case email of
                          None \<Rightarrow> (Inr (), c1)
                        | Some m \<Rightarrow> c_validate_author_email (c1\<lparr>c_author_email := m\<rparr>))
              in case r2 of
                   (Inl e, c2) \<Rightarrow> rollback e c2
                 | (Inr _, c2) \<Rightarrow> (Inr (), c2\<lparr>c_updated_at := now\<rparr>)))"

definition approve :: "comment \<Rightarrow> datetime \<Rightarrow> comment" where
  "approve c now =
     (if \<not> c_is_approved c then c\<lparr>c_is_approved := True, c_updated_at := now\<rparr> else c)"

definition reject :: "comment \<Rightarrow> datetime \<Rightarrow> comment" where
  "reject c now =
     (if c_is_approved c then c\<lparr>c_is_approved := False, c_updated_at := now\<rparr> else c)"

section \<open>BlogPost entity (\<open>domain/entities/blog_post.py\<close>)\<close>

record blog_post =
  bp_title :: string
  bp_content :: string
  bp_id :: uuid
  bp_created_at :: datetime
  bp_updated_at :: datetime
  bp_comment_ids :: "uuid list"

definition bp_validate_title :: "blog_post \<Rightarrow> (error + unit) \<times> blog_post" where
  "bp_validate_title p =
     (if strip (bp_title p) = [] then (Inl (ValueError ''Title cannot be empty''), p)
      else if length (bp_title p) > 200
        then (Inl (ValueError ''Title cannot exceed 200 characters''), p)
      else (Inr (), p))"

definition bp_validate_content :: "blog_post \<Rightarrow> (error + unit) \<times> blog_post" where
  "bp_validate_content p =
     (if strip (bp_content p) = [] then (Inl (ValueError ''Content cannot be empty''), p)
      else (Inr (), p))"

definition BlogPost_init ::
  "string \<Rightarrow> string \<Rightarrow> uuid \<Rightarrow> datetime \<Rightarrow> datetime \<Rightarrow> error + blog_post" where
  "BlogPost_init title content new_id t_created t_updated =
     (let p = \<lparr>bp_title = title, bp_content = content, bp_id = new_id,
                bp_created_at = t_created, bp_updated_at = t_updated, bp_comment_ids = []\<rparr>
      in case bp_validate_title p of
           (Inl e, _) \<Rightarrow> Inl e
         | (Inr _, p1) \<Rightarrow>
             (case bp_validate_content p1 of
                (Inl e, _) \<Rightarrow> Inl e
              | (Inr _, p2) \<Rightarrow> Inr p2))"

definition update_title :: "blog_post \<Rightarrow> string \<Rightarrow> datetime \<Rightarrow> (error + unit) \<times> blog_post" where
  "update_title p new_title now =
     (let old_title = bp_title p;
          p1 = p\<lparr>bp_title := new_title\<rparr>
      in case bp_validate_title p1 of
           (Inr _, p2) \<Rightarrow> (Inr (), p2\<lparr>bp_updated_at := now\<rparr>)
         | (Inl e, p2) \<Rightarrow> (Inl e, p2\<lparr>bp_title := old_title\<rparr>))"

definition bp_update_content :: "blog_post \<Rightarrow> string \<Rightarrow> datetime \<Rightarrow> (error + unit) \<times> blog_post" where
  "bp_update_content p new_content now =
     (let old_content = bp_content p;
          p1 = p\<lparr>bp_content := new_content\<rparr>
      in case bp_validate_content p1 of
           (Inr _, p2) \<Rightarrow> (Inr (), p2\<lparr>bp_updated_at := now\<rparr>)
         | (Inl e, p2) \<Rightarrow> (Inl e, p2\<lparr>bp_content := old_content\<rparr>))"

definition add_comment_id :: "blog_post \<Rightarrow> uuid \<Rightarrow> datetime \<Rightarrow> (error + unit) \<times> blog_post" where
  "add_comment_id p comment_id now =
     (if comment_id \<in> set (bp_comment_ids p)
        then (Inl (ValueError ''Comment ID already exists for this post''), p)
      else (Inr (), p\<lparr>bp_comment_ids := bp_comment_ids p @ [comment_id], bp_updated_at := now\<rparr>))"

definition remove_comment_id :: "blog_post \<Rightarrow> uuid \<Rightarrow> datetime \<Rightarrow> (error + unit) \<times> blog_post" where
  "remove_comment_id p comment_id now =
     (if comment_id \<notin> set (bp_comment_ids p)
        then (Inl (ValueError ''Comment ID not found for this post''), p)
      else (Inr (), p\<lparr>bp_comment_ids := remove1 comment_id (bp_comment_ids p),
                       bp_updated_at := now\<rparr>))"

section \<open>User entity (\<open>domain/entities/user.py\<close>)\<close>

record user =
  u_username :: string
  u_email :: string
  u_password_hash :: string
  u_id :: uuid
  u_full_name :: "string option"
  u_is_active :: bool
  u_is_superuser :: bool
  u_created_at :: datetime
  u_updated_at :: datetime

text \<open>
  \<open>re.match\<close> with a pattern that ends in \<open>$\<close> accepts the subject with or without one
  final newline; \<open>chomp\<close> removes it, after which the pattern must match to the end.
\<close>

definition chomp :: "string \<Rightarrow> string" where
  "chomp s = (if s \<noteq> [] \<and> last s = CHR 0x0A then butlast s else s)"

text \<open>\<open>re.match(r'^[a-zA-Z0-9_]+$', s)\<close>\<close>

definition username_pattern :: "string \<Rightarrow> bool" where
  "username_pattern s =
     (let t = chomp s in t \<noteq> [] \<and> list_all (\<lambda>c. ascii_alnum c \<or> c = CHR ''_'') t)"

text \<open>
  \<open>re.match(r'^[a-zA-Z0-9._%+-]+@[a-zA-Z0-9.-]+\.[a-zA-Z]{2,}$', s)\<close>.  The first class
  has no \<open>@\<close>, so the \<open>@\<close> of the pattern is the first one of the subject; the last
  class has no dot, so the dot of the pattern is the last one after the \<open>@\<close>.
\<close>

definition email_local_char :: "char \<Rightarrow> bool" where
  "email_local_char c = (ascii_alnum c \<or> c \<in> set ''._%+-'')"

definition email_domain_char :: "char \<Rightarrow> bool" where
  "email_domain_char c = (ascii_alnum c \<or> c \<in> set ''.-'')"

definition email_pattern :: "string \<Rightarrow> bool" where
  "email_pattern s =
     (let t = chomp s;
          local_part = takeWhile (\<lambda>c. c \<noteq> CHR ''@'') t;
          rest = drop (length local_part + 1) t;
          tld = rev (takeWhile (\<lambda>c. c \<noteq> CHR ''.'') (rev rest));
          domain_part = take (length rest - length tld - 1) rest
      in CHR ''@'' \<in> set t
         \<and> local_part \<noteq> [] \<and> list_all email_local_char local_part
         \<and> CHR ''.'' \<in> set rest
         \<and> domain_part \<noteq> [] \<and> list_all email_domain_char domain_part
         \<and> 2 \<le> length tld \<and> list_all ascii_alpha tld)"

definition validate_username :: "user \<Rightarrow> (error + unit) \<times> user" where
  "validate_username u =
     (if strip (u_username u) = [] then (Inl (ValueError ''Username cannot be empty''), u)
      else let username = strip (u_username u)
           in if length username < 3
                then (Inl (ValueError ''Username must be at least 3 characters long''), u)
              else if length username > 50
                then (Inl (ValueError ''Username cannot exceed 50 characters''), u)
              else if \<not> username_pattern username
                then (Inl (ValueError ''Username can only contain letters, numbers, and underscores''), u)
              else if take 1 username = ''_'' \<or> drop (length username - 1) username = ''_''
                then (Inl (ValueError ''Username cannot start or end with underscore''), u)
              else (Inr (), u\<lparr>u_username := username\<rparr>))"

definition validate_email :: "user \<Rightarrow> (error + unit) \<times> user" where
  "validate_email u =
     (if strip (u_email u) = [] then (Inl (ValueError ''Email cannot be empty''), u)
      else let email = lower (strip (u_email u))
           in if length email > 255
                then (Inl (ValueError ''Email cannot exceed 255 characters''), u)
              else if \<not> email_pattern email
                then (Inl (ValueError ''Email must have a valid format''), u)
              else (Inr (), u\<lparr>u_email := email\<rparr>))"

definition validate_password_hash :: "user \<Rightarrow> (error + unit) \<times> user" where
  "validate_password_hash u =
     (if strip (u_password_hash u) = []
        then (Inl (ValueError ''Password hash cannot be empty''), u)
      else (Inr (), u))"

definition validate_full_name :: "user \<Rightarrow> (error + unit) \<times> user" where
  "validate_full_name u =
     (case u_full_name u of
        None \<Rightarrow> (Inr (), u)
      | Some n \<Rightarrow>
          if length (strip n) > 100
            then (Inl (ValueError ''Full name cannot exceed 100 characters''), u)
          else (Inr (), u\<lparr>u_full_name := (if strip n \<noteq> [] then Some (strip n) else None)\<rparr>))"

text \<open>
  The dataclass constructor with \<open>__post_init__\<close>; \<open>if self.full_name\<close> is false for
  \<open>None\<close> and for the empty string.
\<close>

definition User_init ::
  "string \<Rightarrow> string \<Rightarrow> string \<Rightarrow> uuid \<Rightarrow> string option \<Rightarrow> bool \<Rightarrow> bool \<Rightarrow> datetime \<Rightarrow> datetime
     \<Rightarrow> error + user" where
  "User_init username email password_hash new_id full_name is_active is_superuser t_created t_updated =
     (let u = \<lparr>u_username = username, u_email = email, u_password_hash = password_hash,
                u_id = new_id, u_full_name = full_name, u_is_active = is_active,
                u_is_superuser = is_superuser, u_created_at = t_created, u_updated_at = t_updated\<rparr>
      in case validate_username u of
           (Inl e, _) \<Rightarrow> Inl e
         | (Inr _, u1) \<Rightarrow>
             (case validate_email u1 of
                (Inl e, _) \<Rightarrow> Inl e
              | (Inr _, u2) \<Rightarrow>
                  (case validate_password_hash u2 of
                     (Inl e, _) \<Rightarrow> Inl e
                   | (Inr _, u3) \<Rightarrow>
                       if u_full_name u3 \<noteq> None \<and> u_full_name u3 \<noteq> Some []
                       then (case validate_full_name u3 of
                               (Inl e, _) \<Rightarrow> Inl e
                             | (Inr _, u4) \<Rightarrow> Inr u4)
                       else Inr u3)))"

definition update_username :: "user \<Rightarrow> string \<Rightarrow> datetime \<Rightarrow> (error + unit) \<times> user" where
  "update_username u new_username now =
     (let old_username = u_username u;
          u1 = u\<lparr>u_username := new_username\<rparr>
      in case validate_username u1 of
           (Inr _, u2) \<Rightarrow> (Inr (), u2\<lparr>u_updated_at := now\<rparr>)
         | (Inl e, u2) \<Rightarrow> (Inl e, u2\<lparr>u_username := old_username\<rparr>))"

definition update_email :: "user \<Rightarrow> string \<Rightarrow> datetime \<Rightarrow> (error + unit) \<times> user" where
  "update_email u new_email now =
     (let old_email = u_email u;
          u1 = u\<lparr>u_email := new_email\<rparr>
      in case validate_email u1 of
           (Inr _, u2) \<Rightarrow> (Inr (), u2\<lparr>u_updated_at := now\<rparr>)
         | (Inl e, u2) \<Rightarrow> (Inl e, u2\<lparr>u_email := old_email\<rparr>))"

definition update_password_hash :: "user \<Rightarrow> string \<Rightarrow> datetime \<Rightarrow> (error + unit) \<times> user" where
  "update_password_hash u new_password_hash now =
     (let old_password_hash = u_password_hash u;
          u1 = u\<lparr>u_password_hash := new_password_hash\<rparr>
      in case validate_password_hash u1 of
           (Inr _, u2) \<Rightarrow> (Inr (), u2\<lparr>u_updated_at := now\<rparr>)
         | (Inl e, u2) \<Rightarrow> (Inl e, u2\<lparr>u_password_hash := old_password_hash\<rparr>))"

definition update_full_name :: "user \<Rightarrow> string option \<Rightarrow> datetime \<Rightarrow> (error + unit) \<times> user" where
  "update_full_name u new_full_name now =
     (let old_full_name = u_full_name u;
          u1 = u\<lparr>u_full_name := new_full_name\<rparr>
      in case validate_full_name u1 of
           (Inr _, u2) \<Rightarrow> (Inr (), u2\<lparr>u_updated_at := now\<rparr>)
         | (Inl e, u2) \<Rightarrow> (Inl e, u2\<lparr>u_full_name := old_full_name\<rparr>))"

definition activate :: "user \<Rightarrow> datetime \<Rightarrow> (error + unit) \<times> user" where
  "activate u now =
     (if \<not> u_is_active u then (Inr (), u\<lparr>u_is_active := True, u_updated_at := now\<rparr>)
      else (Inr (), u))"

definition deactivate :: "user \<Rightarrow> datetime \<Rightarrow> (error + unit) \<times> user" where
  "deactivate u now =
     (if u_is_active u then (Inr (), u\<lparr>u_is_active := False, u_updated_at := now\<rparr>)
      else (Inr (), u))"

definition make_superuser :: "user \<Rightarrow> datetime \<Rightarrow> (error + unit) \<times> user" where
  "make_superuser u now =
     (if \<not> u_is_active u
        then (Inl (ValueError ''Cannot grant superuser privileges to inactive user''), u)
      else if \<not> u_is_superuser u
        then (Inr (), u\<lparr>u_is_superuser := True, u_updated_at := now\<rparr>)
      else (Inr (), u))"

definition remove_superuser :: "user \<Rightarrow> datetime \<Rightarrow> (error + unit) \<times> user" where
  "remove_superuser u now =
     (if u_is_superuser u then (Inr (), u\<lparr>u_is_superuser := False, u_updated_at := now\<rparr>)
      else (Inr (), u))"

section \<open>Persistence (\<open>infrastructure/database\<close>)\<close>

text \<open>
  The database session is a record of three tables, each a list of rows.  A comment row and
  a user row carry the fields of their entities (\<open>from_entity\<close> and \<open>to_entity\<close> copy them
  one by one); a blog post row has no list of comment ids, \<open>to_entity\<close> reads it from the
  \<open>comments\<close> relationship.  A statement with a \<open>WHERE\<close> clause acts on every row that
  satisfies it.  Failures of the database engine itself are outside the model.
\<close>

record blog_post_model =
  m_id :: uuid
  m_title :: string
  m_content :: string
  m_created_at :: datetime
  m_updated_at :: datetime

record database =
  blog_posts :: "blog_post_model list"
  comments :: "comment list"
  users :: "user list"

datatype 'a query_result = MultipleResultsFound | Scalar "'a option"

text \<open>\<open>Result.scalar_one_or_none()\<close>\<close>

fun scalar_one_or_none :: "'a list \<Rightarrow> 'a query_result" where
  "scalar_one_or_none [] = Scalar None"
| "scalar_one_or_none [x] = Scalar (Some x)"
| "scalar_one_or_none (x # y # zs) = MultipleResultsFound"

subsection \<open>Blog post repository\<close>

definition bp_to_entity :: "database \<Rightarrow> blog_post_model \<Rightarrow> blog_post" where
  "bp_to_entity db m =
     \<lparr>bp_title = m_title m, bp_content = m_content m, bp_id = m_id m,
      bp_created_at = m_created_at m, bp_updated_at = m_updated_at m,
      bp_comment_ids = map c_id (filter (\<lambda>c. c_blog_post_id c = m_id m) (comments db))\<rparr>"

definition bp_from_entity :: "blog_post \<Rightarrow> blog_post_model" where
  "bp_from_entity p =
     \<lparr>m_id = bp_id p, m_title = bp_title p, m_content = bp_content p,
      m_created_at = bp_created_at p, m_updated_at = bp_updated_at p\<rparr>"

definition bp_repo_create :: "database \<Rightarrow> blog_post \<Rightarrow> (error + blog_post) \<times> database" where
  "bp_repo_create db p =
     (case find (\<lambda>m. m_id m = bp_id p) (blog_posts db) of
        Some existing \<Rightarrow> (Inl (DuplicateBlogPostError (bp_id p)), db)
      | None \<Rightarrow>
          (let db_blog_post = bp_from_entity p;
               db' = db\<lparr>blog_posts := blog_posts db @ [db_blog_post]\<rparr>
           in (Inr (bp_to_entity db' db_blog_post), db')))"

definition bp_repo_get_by_id :: "database \<Rightarrow> uuid \<Rightarrow> error + blog_post option" where
  "bp_repo_get_by_id db blog_post_id =
     (case scalar_one_or_none (filter (\<lambda>m. m_id m = blog_post_id) (blog_posts db)) of
        MultipleResultsFound \<Rightarrow> Inl (BlogPostRepositoryError ''Failed to retrieve blog post'')
      | Scalar None \<Rightarrow> Inr None
      | Scalar (Some m) \<Rightarrow> Inr (Some (bp_to_entity db m)))"

definition bp_repo_exists :: "database \<Rightarrow> uuid \<Rightarrow> error + bool" where
  "bp_repo_exists db blog_post_id =
     (case scalar_one_or_none (map m_id (filter (\<lambda>m. m_id m = blog_post_id) (blog_posts db))) of
        MultipleResultsFound \<Rightarrow> Inl (BlogPostRepositoryError ''Failed to check blog post existence'')
      | Scalar r \<Rightarrow> Inr (r \<noteq> None))"


subsection \<open>Comment repository\<close>

definition c_update_from_entity :: "comment \<Rightarrow> comment \<Rightarrow> comment" where
  "c_update_from_entity row c =
     row\<lparr>c_content := c_content c, c_author_name := c_author_name c,
         c_author_email := c_author_email c, c_updated_at := c_updated_at c,
         c_is_approved := c_is_approved c\<rparr>"

definition comment_repo_get_by_id :: "database \<Rightarrow> uuid \<Rightarrow> error + comment option" where
  "comment_repo_get_by_id db comment_id = Inr (find (\<lambda>c. c_id c = comment_id) (comments db))"

definition comment_repo_update :: "database \<Rightarrow> comment \<Rightarrow> (error + comment) \<times> database" where
  "comment_repo_update db c =
     (case find (\<lambda>r. c_id r = c_id c) (comments db) of
        None \<Rightarrow> (Inl (CommentNotFoundError (c_id c)), db)
      | Some db_comment \<Rightarrow>
          (Inr (c_update_from_entity db_comment c),
           db\<lparr>comments := map (\<lambda>r. if c_id r = c_id c then c_update_from_entity r c else r)
                               (comments db)\<rparr>))"


subsection \<open>User repository\<close>

definition u_update_from_entity :: "user \<Rightarrow> user \<Rightarrow> user" where
  "u_update_from_entity row u =
     row\<lparr>u_username := u_username u, u_email := u_email u,
         u_password_hash := u_password_hash u, u_full_name := u_full_name u,
         u_is_active := u_is_active u, u_is_superuser := u_is_superuser u,
         u_updated_at := u_updated_at u\<rparr>"

definition user_repo_get_by_id :: "database \<Rightarrow> uuid \<Rightarrow> error + user option" where
  "user_repo_get_by_id db user_id = Inr (find (\<lambda>u. u_id u = user_id) (users db))"

definition get_by_username :: "database \<Rightarrow> string \<Rightarrow> error + user option" where
  "get_by_username db username =
     (case scalar_one_or_none (filter (\<lambda>u. u_username u = username) (users db)) of
        MultipleResultsFound \<Rightarrow> Inl (UserRepositoryError ''Failed to retrieve user by username'')
      | Scalar r \<Rightarrow> Inr r)"

definition get_by_email :: "database \<Rightarrow> string \<Rightarrow> error + user option" where
  "get_by_email db email =
     (case scalar_one_or_none (filter (\<lambda>u. u_email u = lower email) (users db)) of
        MultipleResultsFound \<Rightarrow> Inl (UserRepositoryError ''Failed to retrieve user by email'')
      | Scalar r \<Rightarrow> Inr r)"




definition user_repo_update :: "database \<Rightarrow> user \<Rightarrow> (error + user) \<times> database" where
  "user_repo_update db u =
     (case find (\<lambda>r. u_id r = u_id u) (users db) of
        None \<Rightarrow> (Inl (UserNotFoundError (u_id u)), db)
      | Some db_user \<Rightarrow>
          (Inr (u_update_from_entity db_user u),
           db\<lparr>users := map (\<lambda>r. if u_id r = u_id u then u_update_from_entity r u else r)
                            (users db)\<rparr>))"

section \<open>Security services (\<open>infrastructure/security\<close>)\<close>

text \<open>
  The library calls are the fields of a record: \<open>CryptContext.hash\<close> and
  \<open>CryptContext.verify\<close> of passlib, \<open>jwt.decode\<close> of python-jose (\<open>None\<close> stands for a
  \<open>JWTError\<close>: bad signature, expired, malformed; the payload is read as its
  string-valued claims) and the constructor \<open>UUID(...)\<close> (\<open>None\<close> for text that is not
  a UUID).
\<close>

record services =
  hash_password :: "string \<Rightarrow> string"
  verify_password :: "string \<Rightarrow> string \<Rightarrow> bool"
  jwt_decode :: "string \<Rightarrow> (string \<rightharpoonup> string) option"
  parse_uuid :: "string \<Rightarrow> uuid option"

definition decode_reset_token :: "services \<Rightarrow> string \<Rightarrow> error + (string \<rightharpoonup> string)" where
  "decode_reset_token svc token =
     (case jwt_decode svc token of
        None \<Rightarrow> Inl (TokenInvalidError ''Invalid reset token'')
      | Some payload \<Rightarrow>
          if payload ''type'' \<noteq> Some ''reset'' then Inl (TokenInvalidError ''Invalid token type'')
          else Inr payload)"

section \<open>Authentication use cases (\<open>domain/use_cases/auth_use_cases.py\<close>)\<close>

definition special_chars :: string where
  "special_chars = ''!@#$%^&*()_+-=[]{}|;:,.<>?''"

definition validate_password_strength :: "string \<Rightarrow> error + unit" where
  "validate_password_strength password =
     (if length password < 8
        then Inl (ValueError ''Password must be at least 8 characters long'')
      else if \<not> list_ex py_isupper password
        then Inl (ValueError ''Password must contain at least one uppercase letter'')
      else if \<not> list_ex py_islower password
        then Inl (ValueError ''Password must contain at least one lowercase letter'')
      else if \<not> list_ex py_isdigit password
        then Inl (ValueError ''Password must contain at least one digit'')
      else if \<not> list_ex (\<lambda>c. c \<in> set special_chars) password
        then Inl (ValueError ''Password must contain at least one special character'')
      else Inr ())"


definition authenticate_user :: "services \<Rightarrow> database \<Rightarrow> string \<Rightarrow> string \<Rightarrow> error + user option" where
  "authenticate_user svc db username_or_email password =
     (case get_by_username db username_or_email of
        Inl e \<Rightarrow> Inl e
      | Inr by_name \<Rightarrow>
          (case (case by_name of
                   Some u \<Rightarrow> Inr (Some u)
                 | None \<Rightarrow> get_by_email db username_or_email) of
             Inl e \<Rightarrow> Inl e
           | Inr None \<Rightarrow> Inr None
           | Inr (Some u) \<Rightarrow>
               if \<not> u_is_active u then Inr None
               else if \<not> verify_password svc password (u_password_hash u) then Inr None
               else Inr (Some u)))"

text \<open>The body of the \<open>try\<close> block of \<open>confirm_password_reset\<close>.\<close>

definition confirm_password_reset_body ::
  "services \<Rightarrow> database \<Rightarrow> string \<Rightarrow> string \<Rightarrow> datetime \<Rightarrow> (error + bool) \<times> database" where
  "confirm_password_reset_body svc db reset_token new_password now =
     (case decode_reset_token svc reset_token of
        Inl e \<Rightarrow> (Inl e, db)
      | Inr payload \<Rightarrow>
          (case (case payload ''user_id'' of
                   None \<Rightarrow> Inl (TypeError ''UUID'')
                 | Some text \<Rightarrow>
                     (case parse_uuid svc text of
                        None \<Rightarrow> Inl (ValueError ''badly formed hexadecimal UUID string'')
                      | Some i \<Rightarrow> Inr i)) of
             Inl e \<Rightarrow> (Inl e, db)
           | Inr user_id \<Rightarrow>
               (case user_repo_get_by_id db user_id of
                  Inl e \<Rightarrow> (Inl e, db)
                | Inr None \<Rightarrow> (Inl (ValueError ''Invalid reset token''), db)
                | Inr (Some u) \<Rightarrow>
                    if \<not> u_is_active u then (Inl (ValueError ''Invalid reset token''), db)
                    else
                      (case validate_password_strength new_password of
                         Inl e \<Rightarrow> (Inl e, db)
                       | Inr _ \<Rightarrow>
                           (let new_password_hash = hash_password svc new_password
                            in case update_password_hash u new_password_hash now of
                                 (Inl e, _) \<Rightarrow> (Inl e, db)
                               | (Inr _, u') \<Rightarrow>
                                   (case user_repo_update db u' of
                                      (Inl e, db') \<Rightarrow> (Inl e, db')
                                    | (Inr _, db') \<Rightarrow> (Inr True, db')))))))"

text \<open>\<open>except Exception: raise ValueError("Invalid or expired reset token")\<close>\<close>

definition confirm_password_reset ::
  "services \<Rightarrow> database \<Rightarrow> string \<Rightarrow> string \<Rightarrow> datetime \<Rightarrow> (error + bool) \<times> database" where
  "confirm_password_reset svc db reset_token new_password now =
     (case confirm_password_reset_body svc db reset_token new_password now of
        (Inl e, db') \<Rightarrow> (Inl (ValueError ''Invalid or expired reset token''), db')
      | (Inr r, db') \<Rightarrow> (Inr r, db'))"

section \<open>Blog post use cases (\<open>domain/use_cases/blog_post_use_cases.py\<close>)\<close>

definition create_blog_post ::
  "database \<Rightarrow> string \<Rightarrow> string \<Rightarrow> uuid \<Rightarrow> datetime \<Rightarrow> datetime \<Rightarrow> (error + blog_post) \<times> database" where
  "create_blog_post db title content new_id t_created t_updated =
     (case BlogPost_init title content new_id t_created t_updated of
        Inl e \<Rightarrow> (Inl e, db)
      | Inr blog_post \<Rightarrow>
          (case bp_repo_exists db (bp_id blog_post) of
             Inl e \<Rightarrow> (Inl e, db)
           | Inr True \<Rightarrow> (Inl (DuplicateBlogPostError (bp_id blog_post)), db)
           | Inr False \<Rightarrow> bp_repo_create db blog_post))"

definition get_blog_post_by_id :: "database \<Rightarrow> uuid \<Rightarrow> error + blog_post" where
  "get_blog_post_by_id db blog_post_id =
     (case bp_repo_get_by_id db blog_post_id of
        Inl e \<Rightarrow> Inl e
      | Inr None \<Rightarrow> Inl (BlogPostNotFoundError blog_post_id)
      | Inr (Some blog_post) \<Rightarrow> Inr blog_post)"


section \<open>Comment use cases (\<open>domain/use_cases/comment_use_cases.py\<close>)\<close>

definition get_comment_by_id :: "database \<Rightarrow> uuid \<Rightarrow> error + comment" where
  "get_comment_by_id db comment_id =
     (case comment_repo_get_by_id db comment_id of
        Inl e \<Rightarrow> Inl e
      | Inr None \<Rightarrow> Inl (CommentNotFoundError comment_id)
      | Inr (Some c) \<Rightarrow> Inr c)"

definition approve_comment :: "database \<Rightarrow> uuid \<Rightarrow> datetime \<Rightarrow> (error + comment) \<times> database" where
  "approve_comment db comment_id now =
     (case get_comment_by_id db comment_id of
        Inl e \<Rightarrow> (Inl e, db)
      | Inr c \<Rightarrow> comment_repo_update db (approve c now))"

definition reject_comment :: "database \<Rightarrow> uuid \<Rightarrow> datetime \<Rightarrow> (error + comment) \<times> database" where
  "reject_comment db comment_id now =
     (case get_comment_by_id db comment_id of
        Inl e \<Rightarrow> (Inl e, db)
      | Inr c \<Rightarrow> comment_repo_update db (reject c now))"

text \<open>
  The \<open>for\<close> loop of \<open>moderate_comments_batch\<close>.  \<open>clock k\<close> is the reading of
  \<open>datetime.utcnow\<close> available to the \<open>k\<close>-th remaining iteration.
\<close>

fun moderate_loop ::
  "database \<Rightarrow> uuid list \<Rightarrow> string \<Rightarrow> (nat \<Rightarrow> datetime) \<Rightarrow> comment list
     \<Rightarrow> (error + comment list) \<times> database" where
  "moderate_loop db [] action clock moderated_comments = (Inr moderated_comments, db)"
| "moderate_loop db (comment_id # rest) action clock moderated_comments =
     (case (if action = ''approve'' then approve_comment db comment_id (clock 0)
            else reject_comment db comment_id (clock 0)) of
        (Inl e, db') \<Rightarrow> (Inl e, db')
      | (Inr c, db') \<Rightarrow>
          moderate_loop db' rest action (\<lambda>k. clock (Suc k)) (moderated_comments @ [c]))"

definition moderate_comments_batch ::
  "database \<Rightarrow> uuid list \<Rightarrow> string \<Rightarrow> (nat \<Rightarrow> datetime) \<Rightarrow> (error + comment list) \<times> database" where
  "moderate_comments_batch db comment_ids action clock =
     (if action \<notin> set [''approve'', ''reject'']
        then (Inl (ValueError (''Action must be '' @ [CHR 0x27] @ ''approve'' @ [CHR 0x27]
                                 @ '' or '' @ [CHR 0x27] @ ''reject'' @ [CHR 0x27])), db)
      else moderate_loop db comment_ids action clock [])"

section \<open>Operations as data\<close>

text \<open>
  To speak of every operation of an entity, and of sequences of them, the public mutating
  methods of each entity are collected in a datatype and dispatched by one function.
\<close>

datatype blog_post_op =
    UpdateTitle string
  | BpUpdateContent string
  | AddCommentId uuid
  | RemoveCommentId uuid

fun bp_apply :: "blog_post \<Rightarrow> blog_post_op \<Rightarrow> datetime \<Rightarrow> (error + unit) \<times> blog_post" where
  "bp_apply p (UpdateTitle t) now = update_title p t now"
| "bp_apply p (BpUpdateContent t) now = bp_update_content p t now"
| "bp_apply p (AddCommentId i) now = add_comment_id p i now"
| "bp_apply p (RemoveCommentId i) now = remove_comment_id p i now"

datatype comment_op =
    CUpdateContent string
  | UpdateAuthorInfo "string option" "string option"
  | Approve
  | Reject

fun c_apply :: "comment \<Rightarrow> comment_op \<Rightarrow> datetime \<Rightarrow> (error + unit) \<times> comment" where
  "c_apply c (CUpdateContent t) now = c_update_content c t now"
| "c_apply c (UpdateAuthorInfo n m) now = update_author_info c n m now"
| "c_apply c Approve now = (Inr (), approve c now)"
| "c_apply c Reject now = (Inr (), reject c now)"

datatype user_op =
    UpdateUsername string
  | UpdateEmail string
  | UpdatePasswordHash string
  | UpdateFullName "string option"
  | Activate
  | Deactivate
  | MakeSuperuser
  | RemoveSuperuser

fun u_apply :: "user \<Rightarrow> user_op \<Rightarrow> datetime \<Rightarrow> (error + unit) \<times> user" where
  "u_apply u (UpdateUsername t) now = update_username u t now"
| "u_apply u (UpdateEmail t) now = update_email u t now"
| "u_apply u (UpdatePasswordHash t) now = update_password_hash u t now"
| "u_apply u (UpdateFullName t) now = update_full_name u t now"
| "u_apply u Activate now = activate u now"
| "u_apply u Deactivate now = deactivate u now"
| "u_apply u MakeSuperuser now = make_superuser u now"
| "u_apply u RemoveSuperuser now = remove_superuser u now"

text \<open>
  A sequence of calls on one user object, each with its clock reading; a call that raises
  leaves the object as the method left it and the sequence goes on.
\<close>

fun u_run :: "user \<Rightarrow> (user_op \<times> datetime) list \<Rightarrow> user" where
  "u_run u [] = u"
| "u_run u ((op, now) # rest) = u_run (snd (u_apply u op now)) rest"

section \<open>Concrete values for the examples\<close>

definition c0 :: comment where
  "c0 = \<lparr>c_content = ''hi'', c_blog_post_id = ''p1'', c_id = ''c1'', c_author_name = ''Anonymous'',
         c_author_email = [], c_created_at = 1, c_updated_at = 2, c_is_approved = True\<rparr>"

definition u0 :: user where
  "u0 = \<lparr>u_username = ''alice'', u_email = ''alice@example.org'', u_password_hash = ''h1'',
         u_id = ''u1'', u_full_name = None, u_is_active = True, u_is_superuser = False,
         u_created_at = 1, u_updated_at = 1\<rparr>"

definition p0 :: blog_post where
  "p0 = \<lparr>bp_title = ''Hello'', bp_content = ''World'', bp_id = ''p1'',
         bp_created_at = 1, bp_updated_at = 2, bp_comment_ids = []\<rparr>"

definition db_empty :: database where
  "db_empty = \<lparr>blog_posts = [], comments = [], users = []\<rparr>"

definition row_p1 :: blog_post_model where
  "row_p1 = \<lparr>m_id = ''p1'', m_title = ''Hello'', m_content = ''World'',
             m_created_at = 1, m_updated_at = 2\<rparr>"

definition row_p2 :: blog_post_model where
  "row_p2 = \<lparr>m_id = ''p2'', m_title = ''Second'', m_content = ''More'',
             m_created_at = 3, m_updated_at = 3\<rparr>"

definition c1 :: comment where
  "c1 = \<lparr>c_content = ''first'', c_blog_post_id = ''p1'', c_id = ''c1'',
         c_author_name = ''Anonymous'', c_author_email = [],
         c_created_at = 4, c_updated_at = 4, c_is_approved = False\<rparr>"

definition c2 :: comment where
  "c2 = \<lparr>c_content = ''second'', c_blog_post_id = ''p1'', c_id = ''c2'',
         c_author_name = ''Ann'', c_author_email = ''ann@example.org'',
         c_created_at = 5, c_updated_at = 5, c_is_approved = False\<rparr>"

definition c3 :: comment where
  "c3 = \<lparr>c_content = ''third'', c_blog_post_id = ''p2'', c_id = ''c3'',
         c_author_name = ''Anonymous'', c_author_email = [],
         c_created_at = 6, c_updated_at = 6, c_is_approved = True\<rparr>"

definition alice :: user where
  "alice = \<lparr>u_username = ''alice'', u_email = ''alice@example.org'',
            u_password_hash = ''hash:Valid123!'', u_id = ''u1'', u_full_name = None,
            u_is_active = True, u_is_superuser = False, u_created_at = 1, u_updated_at = 1\<rparr>"

definition bob :: user where
  "bob = \<lparr>u_username = ''bob'', u_email = ''bob@example.org'',
          u_password_hash = ''hash:Secret99?'', u_id = ''u2'', u_full_name = Some ''Bob'',
          u_is_active = False, u_is_superuser = False, u_created_at = 2, u_updated_at = 2\<rparr>"

definition db1 :: database where
  "db1 = \<lparr>blog_posts = [row_p1, row_p2], comments = [c1, c2, c3], users = [alice, bob]\<rparr>"

text \<open>
  A stand-in for the security libraries: the hash of a password is the password behind a
  prefix, a token is valid when it is listed, any text is a UUID.
\<close>

definition svc0 :: services where
  "svc0 = \<lparr>hash_password = (\<lambda>p. ''hash:'' @ p),
            verify_password = (\<lambda>p h. h = ''hash:'' @ p),
            jwt_decode = (\<lambda>t. if t = ''reset-u1'' then Some [''type'' \<mapsto> ''reset'', ''user_id'' \<mapsto> ''u1'']
                               else if t = ''reset-u2'' then Some [''type'' \<mapsto> ''reset'', ''user_id'' \<mapsto> ''u2'']
                               else if t = ''reset-u9'' then Some [''type'' \<mapsto> ''reset'', ''user_id'' \<mapsto> ''u9'']
                               else if t = ''access-u1'' then Some [''type'' \<mapsto> ''access'', ''sub'' \<mapsto> ''u1'']
                               else None),
            parse_uuid = (\<lambda>t. Some t)\<rparr>"

section \<open>Lookups in a table\<close>

lemma find_None_filter: "find P xs = None \<longleftrightarrow> filter P xs = []"
  by (induction xs) auto

lemma find_key_None: "find (\<lambda>r. k r = j) xs = None \<longleftrightarrow> j \<notin> k ` set xs"
  by (induction xs) auto

lemma find_key_Some: "find (\<lambda>r. k r = j) xs = Some y \<Longrightarrow> k y = j"
  by (induction xs) (auto split: if_splits)

lemma find_map_key:
  assumes "\<And>x. k (f x) = k x"
  shows "find (\<lambda>r. k r = j) (map f xs) = map_option f (find (\<lambda>r. k r = j) xs)"
  using assms by (induction xs) auto

section \<open>Field updates: apply or roll back\<close>

lemma update_title_cases:
  "(fst (update_title p v now) = Inl e \<longrightarrow> snd (update_title p v now) = p)
   \<and> (fst (update_title p v now) = Inr () \<longrightarrow>
        snd (update_title p v now) = p\<lparr>bp_title := v, bp_updated_at := now\<rparr>)"
  by (simp add: update_title_def bp_validate_title_def Let_def)

lemma bp_update_content_cases:
  "(fst (bp_update_content p v now) = Inl e \<longrightarrow> snd (bp_update_content p v now) = p)
   \<and> (fst (bp_update_content p v now) = Inr () \<longrightarrow>
        snd (bp_update_content p v now) = p\<lparr>bp_content := v, bp_updated_at := now\<rparr>)"
  by (simp add: bp_update_content_def bp_validate_content_def Let_def)

lemma c_update_content_cases:
  "(fst (c_update_content c v now) = Inl e \<longrightarrow> snd (c_update_content c v now) = c)
   \<and> (fst (c_update_content c v now) = Inr () \<longrightarrow>
        snd (c_update_content c v now) = c\<lparr>c_content := v, c_updated_at := now\<rparr>)"
  by (simp add: c_update_content_def c_validate_content_def Let_def)

lemma update_author_info_cases:
  "(fst (update_author_info c n m now) = Inl e \<longrightarrow> snd (update_author_info c n m now) = c)
   \<and> (fst (update_author_info c n m now) = Inr () \<longrightarrow>
        snd (update_author_info c n m now) =
          c\<lparr>c_author_name := (case n of None \<Rightarrow> c_author_name c | Some x \<Rightarrow> x),
            c_author_email := (case m of None \<Rightarrow> c_author_email c | Some x \<Rightarrow> x),
            c_updated_at := now\<rparr>)"
  by (simp add: update_author_info_def c_validate_author_name_def c_validate_author_email_def
        Let_def split: option.splits)

lemma update_username_cases:
  "(fst (update_username u v now) = Inl e \<longrightarrow> snd (update_username u v now) = u)
   \<and> (fst (update_username u v now) = Inr () \<longrightarrow>
        snd (update_username u v now) = u\<lparr>u_username := strip v, u_updated_at := now\<rparr>)"
  by (simp add: update_username_def validate_username_def Let_def)

lemma update_email_cases:
  "(fst (update_email u v now) = Inl e \<longrightarrow> snd (update_email u v now) = u)
   \<and> (fst (update_email u v now) = Inr () \<longrightarrow>
        snd (update_email u v now) = u\<lparr>u_email := lower (strip v), u_updated_at := now\<rparr>)"
  by (simp add: update_email_def validate_email_def Let_def)

lemma update_password_hash_cases:
  "(fst (update_password_hash u v now) = Inl e \<longrightarrow> snd (update_password_hash u v now) = u)
   \<and> (fst (update_password_hash u v now) = Inr () \<longrightarrow>
        snd (update_password_hash u v now) = u\<lparr>u_password_hash := v, u_updated_at := now\<rparr>)"
  by (simp add: update_password_hash_def validate_password_hash_def Let_def)

lemma update_full_name_cases:
  "(fst (update_full_name u v now) = Inl e \<longrightarrow> snd (update_full_name u v now) = u)
   \<and> (fst (update_full_name u v now) = Inr () \<longrightarrow>
        snd (update_full_name u v now) =
          u\<lparr>u_full_name := (case v of None \<Rightarrow> None
                               | Some n \<Rightarrow> if strip n \<noteq> [] then Some (strip n) else None),
            u_updated_at := now\<rparr>)"
  by (simp add: update_full_name_def validate_full_name_def Let_def split: option.splits)




section \<open>The superuser flag and the active flag\<close>

lemma User_init_fields:
  "User_init username email password_hash new_id full_name is_active is_superuser t1 t2 = Inr u
   \<Longrightarrow> u_is_active u = is_active \<and> u_is_superuser u = is_superuser
       \<and> u_created_at u = t1 \<and> u_updated_at u = t2 \<and> u_id u = new_id
       \<and> u_password_hash u = password_hash"
  unfolding User_init_def validate_username_def validate_email_def validate_password_hash_def
    validate_full_name_def Let_def
  by (simp split: if_splits option.splits) auto

lemma u_apply_flags:
  assumes "u_is_superuser u \<longrightarrow> u_is_active u"
    and "op = Deactivate \<longrightarrow> \<not> u_is_superuser u"
  shows "u_is_superuser (snd (u_apply u op now)) \<longrightarrow> u_is_active (snd (u_apply u op now))"
proof (cases op)
  case (UpdateUsername t)
  then show ?thesis
    using assms update_username_cases [of u t now]
    by (cases "fst (update_username u t now)") auto
next
  case (UpdateEmail t)
  then show ?thesis
    using assms update_email_cases [of u t now]
    by (cases "fst (update_email u t now)") auto
next
  case (UpdatePasswordHash t)
  then show ?thesis
    using assms update_password_hash_cases [of u t now]
    by (cases "fst (update_password_hash u t now)") auto
next
  case (UpdateFullName t)
  then show ?thesis
    using assms update_full_name_cases [of u t now]
    by (cases "fst (update_full_name u t now)") auto
qed (use assms in \<open>simp_all add: activate_def deactivate_def make_superuser_def remove_superuser_def\<close>)

lemma u_run_flags:
  "(u_is_superuser u \<longrightarrow> u_is_active u) \<Longrightarrow> \<forall>(op, t) \<in> set ops. op \<noteq> Deactivate
   \<Longrightarrow> u_is_superuser (u_run u ops) \<longrightarrow> u_is_active (u_run u ops)"
proof (induction ops arbitrary: u)
  case Nil
  then show ?case by simp
next
  case (Cons x ops)
  obtain op t where x: "x = (op, t)" by (cases x)
  from Cons.prems(2) x have nd: "op \<noteq> Deactivate" by simp
  have step: "u_is_superuser (snd (u_apply u op t)) \<longrightarrow> u_is_active (snd (u_apply u op t))"
    using u_apply_flags [of u op t] Cons.prems(1) nd by simp
  have rest: "\<forall>(op, t) \<in> set ops. op \<noteq> Deactivate"
    using Cons.prems(2) by simp
  show ?case
    using Cons.IH [OF step rest] x by simp
qed

text \<open>
  C2 as stated fails: a user built by the constructor with the default flags, made
  superuser and then deactivated, is a superuser and inactive.  \<open>User.deactivate\<close> clears
  \<open>is_active\<close> and does not look at \<open>is_superuser\<close>.
\<close>

theorem deactivate_leaves_superuser_flag:
  "User_init ''alice'' ''alice@example.org'' ''h1'' ''u1'' None True False 1 1 = Inr u0
   \<and> u_is_superuser (u_run u0 [(MakeSuperuser, 2), (Deactivate, 3)])
   \<and> \<not> u_is_active (u_run u0 [(MakeSuperuser, 2), (Deactivate, 3)])"
  by code_simp

text \<open>
  C2, amended.  \<open>make_superuser\<close> on an inactive user raises and changes nothing.  Every
  operation of a user that satisfies "superuser implies active" gives a user that
  satisfies it, \<open>deactivate\<close> too when the user is not a superuser; so the implication
  holds in every state reached from a constructed user whose flags satisfy it (the
  defaults do) by a sequence of operations without \<open>deactivate\<close>.
\<close>

theorem superuser_implies_active_without_deactivate:
  assumes "User_init username email password_hash new_id full_name is_active is_superuser t1 t2
             = Inr u"
    and "is_superuser \<longrightarrow> is_active"
    and "\<forall>(op, t) \<in> set ops. op \<noteq> Deactivate"
  shows "(u_is_superuser (u_run u ops) \<longrightarrow> u_is_active (u_run u ops))
    \<and> (\<forall>(v::user) op now. (u_is_superuser v \<longrightarrow> u_is_active v) \<longrightarrow> (op = Deactivate \<longrightarrow> \<not> u_is_superuser v)
          \<longrightarrow> u_is_superuser (snd (u_apply v op now)) \<longrightarrow> u_is_active (snd (u_apply v op now)))
    \<and> (\<forall>(v::user) now. \<not> u_is_active v \<longrightarrow>
          make_superuser v now
            = (Inl (ValueError ''Cannot grant superuser privileges to inactive user''), v))"
proof (intro conjI allI impI)
  from User_init_fields [OF assms(1)] assms(2)
  have "u_is_superuser u \<longrightarrow> u_is_active u" by simp
  from u_run_flags [OF this assms(3)]
  show "u_is_superuser (u_run u ops) \<Longrightarrow> u_is_active (u_run u ops)" by simp
next
  fix v :: user and op now
  assume "u_is_superuser v \<longrightarrow> u_is_active v" "op = Deactivate \<longrightarrow> \<not> u_is_superuser v"
    "u_is_superuser (snd (u_apply v op now))"
  then show "u_is_active (snd (u_apply v op now))"
    using u_apply_flags [of v op now] by simp
next
  fix v :: user and now
  assume "\<not> u_is_active v"
  then show "make_superuser v now
      = (Inl (ValueError ''Cannot grant superuser privileges to inactive user''), v)"
    by (simp add: make_superuser_def)
qed

theorem superuser_implies_active_without_deactivate_witness:
  "User_init ''alice'' ''alice@example.org'' ''h1'' ''u1'' None True False 1 1 = Inr u0
   \<and> u_is_superuser (u_run u0 [(MakeSuperuser, 2), (UpdateEmail ''A@b.org'', 3)])
   \<and> u_is_active (u_run u0 [(MakeSuperuser, 2), (UpdateEmail ''A@b.org'', 3)])
   \<and> make_superuser (snd (deactivate u0 4)) 5
        = (Inl (ValueError ''Cannot grant superuser privileges to inactive user''),
           snd (deactivate u0 4))"
proof -
  have init: "User_init ''alice'' ''alice@example.org'' ''h1'' ''u1'' None True False 1 1 = Inr u0"
    by code_simp
  have flags: "False \<longrightarrow> True" by simp
  have ops: "\<forall>(op, t) \<in> set [(MakeSuperuser, 2), (UpdateEmail ''A@b.org'', 3)]. op \<noteq> Deactivate"
    by simp
  have super: "u_is_superuser (u_run u0 [(MakeSuperuser, 2), (UpdateEmail ''A@b.org'', 3)])"
    by code_simp
  have inactive: "\<not> u_is_active (snd (deactivate u0 4))"
    by code_simp
  note inst = superuser_implies_active_without_deactivate [OF init flags ops]
  have active: "u_is_active (u_run u0 [(MakeSuperuser, 2), (UpdateEmail ''A@b.org'', 3)])"
    using inst [THEN conjunct1] super by (rule mp)
  have refused: "make_superuser (snd (deactivate u0 4)) 5
        = (Inl (ValueError ''Cannot grant superuser privileges to inactive user''),
           snd (deactivate u0 4))"
    using inst [THEN conjunct2, THEN conjunct2] inactive by blast
  from init super active refused show ?thesis
    by (intro conjI)
qed

section \<open>Creating and reading a blog post\<close>

lemma bp_repo_exists_fresh:
  "\<forall>m \<in> set (blog_posts db). m_id m \<noteq> i \<Longrightarrow> bp_repo_exists db i = Inr False"
proof -
  assume "\<forall>m \<in> set (blog_posts db). m_id m \<noteq> i"
  then have "filter (\<lambda>m. m_id m = i) (blog_posts db) = []"
    by (simp add: filter_empty_conv)
  then show ?thesis by (simp add: bp_repo_exists_def)
qed

lemma bp_repo_create_fresh:
  assumes "\<forall>m \<in> set (blog_posts db). m_id m \<noteq> bp_id p"
  shows "bp_repo_create db p =
      (Inr (bp_to_entity db (bp_from_entity p)),
       db\<lparr>blog_posts := blog_posts db @ [bp_from_entity p]\<rparr>)"
proof -
  from assms have "filter (\<lambda>m. m_id m = bp_id p) (blog_posts db) = []"
    by (simp add: filter_empty_conv)
  then have "find (\<lambda>m. m_id m = bp_id p) (blog_posts db) = None"
    by (simp add: find_None_filter)
  then show ?thesis
    by (simp add: bp_repo_create_def Let_def bp_to_entity_def)
qed

lemma get_after_append:
  assumes "\<forall>m \<in> set (blog_posts db). m_id m \<noteq> m_id row"
  shows "get_blog_post_by_id (db\<lparr>blog_posts := blog_posts db @ [row]\<rparr>) (m_id row)
         = Inr (bp_to_entity db row)"
proof -
  from assms have "filter (\<lambda>m. m_id m = m_id row) (blog_posts db) = []"
    by (simp add: filter_empty_conv)
  then show ?thesis
    by (simp add: get_blog_post_by_id_def bp_repo_get_by_id_def bp_to_entity_def)
qed

lemma BlogPost_init_valid:
  assumes "strip title \<noteq> []" and "length title \<le> 200" and "strip content \<noteq> []"
  shows "BlogPost_init title content new_id t1 t2 =
      Inr \<lparr>bp_title = title, bp_content = content, bp_id = new_id,
           bp_created_at = t1, bp_updated_at = t2, bp_comment_ids = []\<rparr>"
  using assms
  by (simp add: BlogPost_init_def bp_validate_title_def bp_validate_content_def Let_def)

text \<open>
  C3 as stated fails in its last part.  The constructor of \<open>BlogPost\<close> reads the clock
  twice, once for \<open>created_at\<close> and once for \<open>updated_at\<close>; when the clock moves between
  the two readings (1 and 2 here) the post that is created and read back has
  \<open>created_at\<close> different from \<open>updated_at\<close>.
\<close>

theorem created_post_timestamps_differ:
  "fst (create_blog_post db_empty ''Hello'' ''World'' ''p1'' 1 2) = Inr p0
   \<and> get_blog_post_by_id (snd (create_blog_post db_empty ''Hello'' ''World'' ''p1'' 1 2)) ''p1''
       = Inr p0
   \<and> bp_created_at p0 \<noteq> bp_updated_at p0"
  by code_simp

text \<open>
  C3, amended.  For a title that is not blank and has at most 200 characters, a content
  that is not blank, and a generated id that no stored post has: \<open>create_blog_post\<close>
  returns a post, and \<open>get_blog_post_by_id\<close> with that id on the resulting database
  returns the same post, whose title and content are the inputs and whose \<open>created_at\<close>
  and \<open>updated_at\<close> are the first and the second clock reading of the constructor.
\<close>

theorem create_then_get_blog_post:
  assumes "strip title \<noteq> []" and "length title \<le> 200" and "strip content \<noteq> []"
    and "\<forall>m \<in> set (blog_posts db). m_id m \<noteq> new_id"
  shows "(\<exists>p. fst (create_blog_post db title content new_id t1 t2) = Inr p
            \<and> get_blog_post_by_id (snd (create_blog_post db title content new_id t1 t2)) new_id
                = Inr p
            \<and> bp_id p = new_id \<and> bp_title p = title \<and> bp_content p = content
            \<and> bp_created_at p = t1 \<and> bp_updated_at p = t2)"
proof -
  let ?p = "\<lparr>bp_title = title, bp_content = content, bp_id = new_id,
             bp_created_at = t1, bp_updated_at = t2, bp_comment_ids = []\<rparr>"
  let ?row = "bp_from_entity ?p"
  have init: "BlogPost_init title content new_id t1 t2 = Inr ?p"
    using assms(1-3) by (rule BlogPost_init_valid)
  have fresh: "\<forall>m \<in> set (blog_posts db). m_id m \<noteq> bp_id ?p"
    using assms(4) by simp
  have row_id: "m_id ?row = new_id"
    by (simp add: bp_from_entity_def)
  have created: "create_blog_post db title content new_id t1 t2 =
      (Inr (bp_to_entity db ?row), db\<lparr>blog_posts := blog_posts db @ [?row]\<rparr>)"
    using init bp_repo_exists_fresh [OF fresh] bp_repo_create_fresh [OF fresh]
    by (simp add: create_blog_post_def)
  have fresh_row: "\<forall>m \<in> set (blog_posts db). m_id m \<noteq> m_id ?row"
    using assms(4) row_id by simp
  have got: "get_blog_post_by_id (db\<lparr>blog_posts := blog_posts db @ [?row]\<rparr>) new_id
      = Inr (bp_to_entity db ?row)"
    using get_after_append [OF fresh_row] row_id by simp
  have fields: "bp_id (bp_to_entity db ?row) = new_id \<and> bp_title (bp_to_entity db ?row) = title
      \<and> bp_content (bp_to_entity db ?row) = content
      \<and> bp_created_at (bp_to_entity db ?row) = t1 \<and> bp_updated_at (bp_to_entity db ?row) = t2"
    by (simp add: bp_to_entity_def bp_from_entity_def)
  show ?thesis
    using created got fields by simp
qed

text \<open>
  An instance on \<open>db1\<close>, which holds the posts \<open>p1\<close> and \<open>p2\<close>: a post created with the
  new id \<open>p3\<close> at clock readings 7 and 8 is read back with its title, its content and
  the two readings.
\<close>

theorem create_then_get_blog_post_witness:
  "strip ''Third post'' \<noteq> [] \<and> length ''Third post'' \<le> 200 \<and> strip ''Some text'' \<noteq> []
   \<and> map m_id (blog_posts db1) = [''p1'', ''p2'']
   \<and> (\<exists>p. fst (create_blog_post db1 ''Third post'' ''Some text'' ''p3'' 7 8) = Inr p
          \<and> get_blog_post_by_id (snd (create_blog_post db1 ''Third post'' ''Some text'' ''p3'' 7 8))
               ''p3'' = Inr p
          \<and> bp_id p = ''p3'' \<and> bp_title p = ''Third post'' \<and> bp_content p = ''Some text''
          \<and> bp_created_at p = 7 \<and> bp_updated_at p = 8)"
proof -
  have h1: "strip ''Third post'' \<noteq> []" by code_simp
  have h2: "length ''Third post'' \<le> 200" by simp
  have h3: "strip ''Some text'' \<noteq> []" by code_simp
  have h4: "\<forall>m \<in> set (blog_posts db1). m_id m \<noteq> ''p3''" by code_simp
  have h5: "map m_id (blog_posts db1) = [''p1'', ''p2'']" by code_simp
  from h1 h2 h3 h5 create_then_get_blog_post [OF h1 h2 h3 h4, of 7 8]
  show ?thesis by (intro conjI)
qed

section \<open>Authentication\<close>

text \<open>
  C4.  \<open>authenticate_user\<close> returns \<open>None\<close>, and raises nothing, in each of the three
  failure cases: neither the lookup by username nor the lookup by email finds a user; the
  user found is inactive; the user found is active and the password does not verify.  The
  user is the one found by username when that lookup finds one, whatever the lookup by email
  would give, and the one found by email only when the lookup by username finds nothing.
  When the user found is active and the password verifies, that user is returned.
\<close>

theorem authenticate_user_failures_indistinguishable:
  "(get_by_username db ident = Inr None \<longrightarrow> get_by_email db ident = Inr None \<longrightarrow>
      authenticate_user svc db ident password = Inr None)
   \<and> (get_by_username db ident = Inr (Some u) \<longrightarrow> \<not> u_is_active u \<longrightarrow>
        authenticate_user svc db ident password = Inr None)
   \<and> (get_by_username db ident = Inr None \<longrightarrow> get_by_email db ident = Inr (Some u) \<longrightarrow>
        \<not> u_is_active u \<longrightarrow> authenticate_user svc db ident password = Inr None)
   \<and> (get_by_username db ident = Inr (Some u) \<longrightarrow> u_is_active u \<longrightarrow>
        \<not> verify_password svc password (u_password_hash u) \<longrightarrow>
        authenticate_user svc db ident password = Inr None)
   \<and> (get_by_username db ident = Inr None \<longrightarrow> get_by_email db ident = Inr (Some u) \<longrightarrow>
        u_is_active u \<longrightarrow> \<not> verify_password svc password (u_password_hash u) \<longrightarrow>
        authenticate_user svc db ident password = Inr None)
   \<and> (get_by_username db ident = Inr (Some u) \<longrightarrow> u_is_active u \<longrightarrow>
        verify_password svc password (u_password_hash u) \<longrightarrow>
        authenticate_user svc db ident password = Inr (Some u))
   \<and> (get_by_username db ident = Inr None \<longrightarrow> get_by_email db ident = Inr (Some u) \<longrightarrow>
        u_is_active u \<longrightarrow> verify_password svc password (u_password_hash u) \<longrightarrow>
        authenticate_user svc db ident password = Inr (Some u))"
  by (simp add: authenticate_user_def)

text \<open>
  In \<open>db1\<close> \<open>alice\<close> is active and \<open>bob\<close> is not.  An unknown name, \<open>bob\<close> with his own
  password and \<open>alice\<close> with a wrong password all give \<open>None\<close>; \<open>alice\<close> with her password
  is returned, by her username and by her email.
\<close>

theorem authenticate_user_failures_indistinguishable_witness:
  "authenticate_user svc0 db1 ''nobody'' ''Valid123!'' = Inr None
   \<and> authenticate_user svc0 db1 ''bob'' ''Secret99?'' = Inr None
   \<and> authenticate_user svc0 db1 ''alice'' ''Wrong123!'' = Inr None
   \<and> authenticate_user svc0 db1 ''alice'' ''Valid123!'' = Inr (Some alice)
   \<and> authenticate_user svc0 db1 ''Alice@Example.org'' ''Valid123!'' = Inr (Some alice)"
proof -
  note inst = authenticate_user_failures_indistinguishable
  have n1: "get_by_username db1 ''nobody'' = Inr None" by code_simp
  have n2: "get_by_email db1 ''nobody'' = Inr None" by code_simp
  have r1: "authenticate_user svc0 db1 ''nobody'' ''Valid123!'' = Inr None"
    by (rule inst [THEN conjunct1, THEN mp, THEN mp, OF n1 n2])
  have b1: "get_by_username db1 ''bob'' = Inr (Some bob)" by code_simp
  have b2: "\<not> u_is_active bob" by code_simp
  have r2: "authenticate_user svc0 db1 ''bob'' ''Secret99?'' = Inr None"
    by (rule inst [THEN conjunct2, THEN conjunct1, THEN mp, THEN mp, OF b1 b2])
  have a1: "get_by_username db1 ''alice'' = Inr (Some alice)" by code_simp
  have a2: "u_is_active alice" by code_simp
  have a3: "\<not> verify_password svc0 ''Wrong123!'' (u_password_hash alice)" by code_simp
  have r3: "authenticate_user svc0 db1 ''alice'' ''Wrong123!'' = Inr None"
    by (rule inst [THEN conjunct2, THEN conjunct2, THEN conjunct2, THEN conjunct1,
          THEN mp, THEN mp, THEN mp, OF a1 a2 a3])
  have a4: "verify_password svc0 ''Valid123!'' (u_password_hash alice)" by code_simp
  have r4: "authenticate_user svc0 db1 ''alice'' ''Valid123!'' = Inr (Some alice)"
    by (rule inst [THEN conjunct2, THEN conjunct2, THEN conjunct2, THEN conjunct2,
          THEN conjunct2, THEN conjunct1, THEN mp, THEN mp, THEN mp, OF a1 a2 a4])
  have e1: "get_by_username db1 ''Alice@Example.org'' = Inr None" by code_simp
  have e2: "get_by_email db1 ''Alice@Example.org'' = Inr (Some alice)" by code_simp
  have r5: "authenticate_user svc0 db1 ''Alice@Example.org'' ''Valid123!'' = Inr (Some alice)"
    by (rule inst [THEN conjunct2, THEN conjunct2, THEN conjunct2, THEN conjunct2,
          THEN conjunct2, THEN conjunct2, THEN mp, THEN mp, THEN mp, THEN mp, OF e1 e2 a2 a4])
  from r1 r2 r3 r4 r5 show ?thesis by (intro conjI)
qed

section \<open>Registration\<close>




section \<open>Confirming a password reset\<close>

lemma confirm_body_failure:
  "fst (confirm_password_reset_body svc db tok pw now) = Inl e
   \<Longrightarrow> snd (confirm_password_reset_body svc db tok pw now) = db"
  unfolding confirm_password_reset_body_def user_repo_update_def user_repo_get_by_id_def Let_def
  by (simp split: sum.splits option.splits if_splits prod.splits)

lemma confirm_failure:
  assumes "fst (confirm_password_reset svc db tok pw now) = Inl e"
  shows "confirm_password_reset svc db tok pw now
      = (Inl (ValueError ''Invalid or expired reset token''), db)"
proof (cases "fst (confirm_password_reset_body svc db tok pw now)")
  case (Inl e')
  then have "snd (confirm_password_reset_body svc db tok pw now) = db"
    by (rule confirm_body_failure)
  with Inl have "confirm_password_reset_body svc db tok pw now = (Inl e', db)"
    by (simp add: prod_eq_iff)
  then show ?thesis by (simp add: confirm_password_reset_def)
next
  case (Inr r)
  then have "fst (confirm_password_reset svc db tok pw now) = Inr r"
    by (cases "confirm_password_reset_body svc db tok pw now")
       (simp add: confirm_password_reset_def)
  with assms show ?thesis by simp
qed

lemma confirm_body_raises:
  assumes "fst (confirm_password_reset_body svc db tok pw now) = Inl e"
  shows "confirm_password_reset svc db tok pw now
      = (Inl (ValueError ''Invalid or expired reset token''), db)"
proof -
  have "fst (confirm_password_reset svc db tok pw now)
      = Inl (ValueError ''Invalid or expired reset token'')"
    using assms
    by (cases "confirm_password_reset_body svc db tok pw now")
       (simp add: confirm_password_reset_def)
  then show ?thesis by (rule confirm_failure)
qed

lemma user_row_rewritten:
  "u_update_from_entity u (u\<lparr>u_password_hash := h, u_updated_at := t\<rparr>)
     = u\<lparr>u_password_hash := h, u_updated_at := t\<rparr>"
  by (simp add: u_update_from_entity_def)

lemma confirm_success:
  assumes "decode_reset_token svc tok = Inr payload" and "payload ''user_id'' = Some txt"
    and "parse_uuid svc txt = Some i" and "find (\<lambda>r. u_id r = i) (users db) = Some u"
    and "u_is_active u" and "validate_password_strength pw = Inr ()"
    and "strip (hash_password svc pw) \<noteq> []"
  shows "confirm_password_reset svc db tok pw now =
      (Inr True,
       db\<lparr>users := map (\<lambda>r. if u_id r = i
                              then u_update_from_entity r
                                     (u\<lparr>u_password_hash := hash_password svc pw, u_updated_at := now\<rparr>)
                              else r) (users db)\<rparr>)"
proof -
  have ui: "u_id u = i"
    using assms(4) by (rule find_key_Some)
  have upd: "update_password_hash u (hash_password svc pw) now
      = (Inr (), u\<lparr>u_password_hash := hash_password svc pw, u_updated_at := now\<rparr>)"
    using assms(7) by (simp add: update_password_hash_def validate_password_hash_def Let_def)
  have body: "confirm_password_reset_body svc db tok pw now =
      (Inr True,
       db\<lparr>users := map (\<lambda>r. if u_id r = i
                              then u_update_from_entity r
                                     (u\<lparr>u_password_hash := hash_password svc pw, u_updated_at := now\<rparr>)
                              else r) (users db)\<rparr>)"
    using assms(1-6) ui upd
    by (simp add: confirm_password_reset_body_def user_repo_get_by_id_def user_repo_update_def
          Let_def)
  show ?thesis
    by (simp add: confirm_password_reset_def body)
qed

lemma users_after_rewrite:
  assumes "find (\<lambda>r. u_id r = i) xs = Some u" and "u_id e = i"
  shows "find (\<lambda>r. u_id r = j) (map (\<lambda>r. if u_id r = i then u_update_from_entity r e else r) xs)
      = (if j = i then Some (u_update_from_entity u e) else find (\<lambda>r. u_id r = j) xs)"
proof -
  let ?f = "\<lambda>r. if u_id r = i then u_update_from_entity r e else r"
  have key: "\<And>x. u_id (?f x) = u_id x"
    by (simp add: u_update_from_entity_def)
  have look: "find (\<lambda>r. u_id r = j) (map ?f xs) = map_option ?f (find (\<lambda>r. u_id r = j) xs)"
    using find_map_key [of u_id ?f, OF key] by simp
  have ui: "u_id u = i"
    using assms(1) by (rule find_key_Some)
  show ?thesis
  proof (cases "j = i")
    case True
    then show ?thesis using look assms(1) ui by simp
  next
    case False
    show ?thesis
    proof (cases "find (\<lambda>r. u_id r = j) xs")
      case None
      then show ?thesis using look False by simp
    next
      case (Some y)
      then have "u_id y = j" by (rule find_key_Some)
      then show ?thesis using look Some False by simp
    qed
  qed
qed

text \<open>
  C6.  Whenever \<open>confirm_password_reset\<close> raises, what it raises is the one
  \<open>ValueError("Invalid or expired reset token")\<close> and the database is as it was before
  the call.  It raises when the token does not decode, when the token is not of type
  \<open>reset\<close>, when no user has the id of the token, when that user is inactive, and
  when the new password fails the strength rule.  When the token decodes to the id of an
  active user and the password passes (and the hasher returns a hash that is not blank)
  the call returns \<open>True\<close>; the stored user then has the new hash and the clock reading
  as \<open>updated_at\<close> and is otherwise unchanged, and so is the rest of the database.
\<close>

theorem confirm_password_reset_collapses_failures:
  "(fst (confirm_password_reset svc db tok pw now) = Inl e \<longrightarrow>
      confirm_password_reset svc db tok pw now
        = (Inl (ValueError ''Invalid or expired reset token''), db))
   \<and> (jwt_decode svc tok = None \<longrightarrow>
        confirm_password_reset svc db tok pw now
          = (Inl (ValueError ''Invalid or expired reset token''), db))
   \<and> (jwt_decode svc tok = Some claims \<longrightarrow> claims ''type'' \<noteq> Some ''reset'' \<longrightarrow>
        confirm_password_reset svc db tok pw now
          = (Inl (ValueError ''Invalid or expired reset token''), db))
   \<and> (decode_reset_token svc tok = Inr payload \<longrightarrow> payload ''user_id'' = Some txt \<longrightarrow>
        parse_uuid svc txt = Some i \<longrightarrow>
          (find (\<lambda>r. u_id r = i) (users db) = None \<longrightarrow>
             confirm_password_reset svc db tok pw now
               = (Inl (ValueError ''Invalid or expired reset token''), db))
        \<and> (find (\<lambda>r. u_id r = i) (users db) = Some u \<longrightarrow> \<not> u_is_active u \<longrightarrow>
             confirm_password_reset svc db tok pw now
               = (Inl (ValueError ''Invalid or expired reset token''), db))
        \<and> (find (\<lambda>r. u_id r = i) (users db) = Some u \<longrightarrow> u_is_active u \<longrightarrow>
             validate_password_strength pw = Inl e' \<longrightarrow>
             confirm_password_reset svc db tok pw now
               = (Inl (ValueError ''Invalid or expired reset token''), db))
        \<and> (find (\<lambda>r. u_id r = i) (users db) = Some u \<longrightarrow> u_is_active u \<longrightarrow>
             validate_password_strength pw = Inr () \<longrightarrow> strip (hash_password svc pw) \<noteq> [] \<longrightarrow>
             fst (confirm_password_reset svc db tok pw now) = Inr True
             \<and> user_repo_get_by_id (snd (confirm_password_reset svc db tok pw now)) i
                 = Inr (Some (u\<lparr>u_password_hash := hash_password svc pw, u_updated_at := now\<rparr>))
             \<and> (\<forall>j. j \<noteq> i \<longrightarrow>
                   user_repo_get_by_id (snd (confirm_password_reset svc db tok pw now)) j
                     = user_repo_get_by_id db j)
             \<and> blog_posts (snd (confirm_password_reset svc db tok pw now)) = blog_posts db
             \<and> comments (snd (confirm_password_reset svc db tok pw now)) = comments db))"
proof (intro conjI impI allI)
  assume "fst (confirm_password_reset svc db tok pw now) = Inl e"
  then show "confirm_password_reset svc db tok pw now
      = (Inl (ValueError ''Invalid or expired reset token''), db)"
    by (rule confirm_failure)
next
  assume "jwt_decode svc tok = None"
  then have "fst (confirm_password_reset_body svc db tok pw now)
      = Inl (TokenInvalidError ''Invalid reset token'')"
    by (simp add: confirm_password_reset_body_def decode_reset_token_def)
  then show "confirm_password_reset svc db tok pw now
      = (Inl (ValueError ''Invalid or expired reset token''), db)"
    by (rule confirm_body_raises)
next
  assume "jwt_decode svc tok = Some claims" and "claims ''type'' \<noteq> Some ''reset''"
  then have "fst (confirm_password_reset_body svc db tok pw now)
      = Inl (TokenInvalidError ''Invalid token type'')"
    by (simp add: confirm_password_reset_body_def decode_reset_token_def)
  then show "confirm_password_reset svc db tok pw now
      = (Inl (ValueError ''Invalid or expired reset token''), db)"
    by (rule confirm_body_raises)
next
  assume "decode_reset_token svc tok = Inr payload" and "payload ''user_id'' = Some txt"
    and "parse_uuid svc txt = Some i" and "find (\<lambda>r. u_id r = i) (users db) = None"
  then have "fst (confirm_password_reset_body svc db tok pw now)
      = Inl (ValueError ''Invalid reset token'')"
    by (simp add: confirm_password_reset_body_def user_repo_get_by_id_def)
  then show "confirm_password_reset svc db tok pw now
      = (Inl (ValueError ''Invalid or expired reset token''), db)"
    by (rule confirm_body_raises)
next
  assume "decode_reset_token svc tok = Inr payload" and "payload ''user_id'' = Some txt"
    and "parse_uuid svc txt = Some i" and "find (\<lambda>r. u_id r = i) (users db) = Some u"
    and "\<not> u_is_active u"
  then have "fst (confirm_password_reset_body svc db tok pw now)
      = Inl (ValueError ''Invalid reset token'')"
    by (simp add: confirm_password_reset_body_def user_repo_get_by_id_def)
  then show "confirm_password_reset svc db tok pw now
      = (Inl (ValueError ''Invalid or expired reset token''), db)"
    by (rule confirm_body_raises)
next
  assume "decode_reset_token svc tok = Inr payload" and "payload ''user_id'' = Some txt"
    and "parse_uuid svc txt = Some i" and "find (\<lambda>r. u_id r = i) (users db) = Some u"
    and "u_is_active u" and "validate_password_strength pw = Inl e'"
  then have "fst (confirm_password_reset_body svc db tok pw now) = Inl e'"
    by (simp add: confirm_password_reset_body_def user_repo_get_by_id_def)
  then show "confirm_password_reset svc db tok pw now
      = (Inl (ValueError ''Invalid or expired reset token''), db)"
    by (rule confirm_body_raises)
next
  assume a: "decode_reset_token svc tok = Inr payload" "payload ''user_id'' = Some txt"
    "parse_uuid svc txt = Some i" "find (\<lambda>r. u_id r = i) (users db) = Some u"
    "u_is_active u" "validate_password_strength pw = Inr ()"
    "strip (hash_password svc pw) \<noteq> []"
  let ?e = "u\<lparr>u_password_hash := hash_password svc pw, u_updated_at := now\<rparr>"
  note res = confirm_success [OF a, of now]
  have ei: "u_id ?e = i"
    using find_key_Some [OF a(4)] by simp
  note look = users_after_rewrite [OF a(4) ei]
  show "fst (confirm_password_reset svc db tok pw now) = Inr True"
    by (simp add: res)
  show "user_repo_get_by_id (snd (confirm_password_reset svc db tok pw now)) i = Inr (Some ?e)"
    using look [of i] by (simp add: res user_repo_get_by_id_def user_row_rewritten)
  show "blog_posts (snd (confirm_password_reset svc db tok pw now)) = blog_posts db"
    by (simp add: res)
  show "comments (snd (confirm_password_reset svc db tok pw now)) = comments db"
    by (simp add: res)
  fix j assume "j \<noteq> i"
  then show "user_repo_get_by_id (snd (confirm_password_reset svc db tok pw now)) j
      = user_repo_get_by_id db j"
    using look [of j] by (simp add: res user_repo_get_by_id_def)
qed

text \<open>
  With the users of \<open>db1\<close>: an unknown token, an access token, a token for an id that no
  user has, a token for the inactive \<open>bob\<close> and a weak password for \<open>alice\<close> all raise the
  same error and leave \<open>db1\<close> as it is; the token of \<open>alice\<close> with a good password
  returns \<open>True\<close> and stores the new hash.
\<close>

theorem confirm_password_reset_collapses_failures_witness:
  "confirm_password_reset svc0 db1 ''garbage'' ''NewPass1!'' 9
     = (Inl (ValueError ''Invalid or expired reset token''), db1)
   \<and> confirm_password_reset svc0 db1 ''access-u1'' ''NewPass1!'' 9
     = (Inl (ValueError ''Invalid or expired reset token''), db1)
   \<and> confirm_password_reset svc0 db1 ''reset-u9'' ''NewPass1!'' 9
     = (Inl (ValueError ''Invalid or expired reset token''), db1)
   \<and> confirm_password_reset svc0 db1 ''reset-u2'' ''NewPass1!'' 9
     = (Inl (ValueError ''Invalid or expired reset token''), db1)
   \<and> confirm_password_reset svc0 db1 ''reset-u1'' ''weak'' 9
     = (Inl (ValueError ''Invalid or expired reset token''), db1)
   \<and> fst (confirm_password_reset svc0 db1 ''reset-u1'' ''NewPass1!'' 9) = Inr True
   \<and> users (snd (confirm_password_reset svc0 db1 ''reset-u1'' ''NewPass1!'' 9))
       = [alice\<lparr>u_password_hash := ''hash:NewPass1!'', u_updated_at := 9\<rparr>, bob]"
proof -
  note inst = confirm_password_reset_collapses_failures
  have g: "jwt_decode svc0 ''garbage'' = None" by code_simp
  have r1: "confirm_password_reset svc0 db1 ''garbage'' ''NewPass1!'' 9
     = (Inl (ValueError ''Invalid or expired reset token''), db1)"
    by (rule inst [THEN conjunct2, THEN conjunct1, THEN mp, OF g])
  have f2: "fst (confirm_password_reset svc0 db1 ''access-u1'' ''NewPass1!'' 9)
      = Inl (ValueError ''Invalid or expired reset token'')" by code_simp
  have r2: "confirm_password_reset svc0 db1 ''access-u1'' ''NewPass1!'' 9
     = (Inl (ValueError ''Invalid or expired reset token''), db1)"
    by (rule inst [THEN conjunct1, THEN mp, OF f2])
  have f3: "fst (confirm_password_reset svc0 db1 ''reset-u9'' ''NewPass1!'' 9)
      = Inl (ValueError ''Invalid or expired reset token'')" by code_simp
  have r3: "confirm_password_reset svc0 db1 ''reset-u9'' ''NewPass1!'' 9
     = (Inl (ValueError ''Invalid or expired reset token''), db1)"
    by (rule inst [THEN conjunct1, THEN mp, OF f3])
  have f4: "fst (confirm_password_reset svc0 db1 ''reset-u2'' ''NewPass1!'' 9)
      = Inl (ValueError ''Invalid or expired reset token'')" by code_simp
  have r4: "confirm_password_reset svc0 db1 ''reset-u2'' ''NewPass1!'' 9
     = (Inl (ValueError ''Invalid or expired reset token''), db1)"
    by (rule inst [THEN conjunct1, THEN mp, OF f4])
  have f5: "fst (confirm_password_reset svc0 db1 ''reset-u1'' ''weak'' 9)
      = Inl (ValueError ''Invalid or expired reset token'')" by code_simp
  have r5: "confirm_password_reset svc0 db1 ''reset-u1'' ''weak'' 9
     = (Inl (ValueError ''Invalid or expired reset token''), db1)"
    by (rule inst [THEN conjunct1, THEN mp, OF f5])
  have d: "decode_reset_token svc0 ''reset-u1''
      = Inr [''type'' \<mapsto> ''reset'', ''user_id'' \<mapsto> ''u1'']"
    by (simp add: decode_reset_token_def svc0_def)
  have p: "[''type'' \<mapsto> ''reset'', ''user_id'' \<mapsto> ''u1''] ''user_id'' = Some ''u1''"
    by simp
  have q: "parse_uuid svc0 ''u1'' = Some ''u1''"
    by (simp add: svc0_def)
  have f: "find (\<lambda>r. u_id r = ''u1'') (users db1) = Some alice" by code_simp
  have a: "u_is_active alice" by code_simp
  have v: "validate_password_strength ''NewPass1!'' = Inr ()" by code_simp
  have h: "strip (hash_password svc0 ''NewPass1!'') \<noteq> []" by code_simp
  note found = inst [THEN conjunct2, THEN conjunct2, THEN conjunct2,
      THEN mp, THEN mp, THEN mp, OF d p q]
  have r6: "fst (confirm_password_reset svc0 db1 ''reset-u1'' ''NewPass1!'' 9) = Inr True"
    by (rule found [THEN conjunct2, THEN conjunct2, THEN conjunct2,
          THEN mp, THEN mp, THEN mp, THEN mp, OF f a v h, THEN conjunct1])
  have r7: "users (snd (confirm_password_reset svc0 db1 ''reset-u1'' ''NewPass1!'' 9))
       = [alice\<lparr>u_password_hash := ''hash:NewPass1!'', u_updated_at := 9\<rparr>, bob]"
    by code_simp
  from r1 r2 r3 r4 r5 r6 r7 show ?thesis by (intro conjI)
qed

section \<open>Batch moderation\<close>

lemma approve_flag: "c_is_approved (approve c t) \<and> c_id (approve c t) = c_id c"
  by (simp add: approve_def)

lemma reject_flag: "\<not> c_is_approved (reject c t) \<and> c_id (reject c t) = c_id c"
  by (simp add: reject_def)

lemma c_update_from_entity_fields:
  "c_id (c_update_from_entity r e) = c_id r
   \<and> c_is_approved (c_update_from_entity r e) = c_is_approved e"
  by (simp add: c_update_from_entity_def)

text \<open>The effect of \<open>comment_repo_update\<close> with an entity whose id is stored.\<close>

lemma comment_repo_update_present:
  assumes "find (\<lambda>r. c_id r = i) (comments db) = Some c" and "c_id e = i"
  shows "\<exists>c' db'. comment_repo_update db e = (Inr c', db') \<and> c_id c' = i
      \<and> map c_id (comments db') = map c_id (comments db)
      \<and> map_option c_is_approved (find (\<lambda>r. c_id r = i) (comments db')) = Some (c_is_approved e)
      \<and> (\<forall>j. j \<noteq> i \<longrightarrow> find (\<lambda>r. c_id r = j) (comments db') = find (\<lambda>r. c_id r = j) (comments db))"
proof -
  let ?f = "\<lambda>r. if c_id r = i then c_update_from_entity r e else r"
  let ?db' = "db\<lparr>comments := map ?f (comments db)\<rparr>"
  have key: "\<And>x. c_id (?f x) = c_id x"
    by (simp add: c_update_from_entity_fields)
  have ci: "c_id c = i"
    using assms(1) by (rule find_key_Some)
  have res: "comment_repo_update db e = (Inr (c_update_from_entity c e), ?db')"
    using assms by (simp add: comment_repo_update_def)
  have ids: "map c_id (comments ?db') = map c_id (comments db)"
    by (simp add: c_update_from_entity_fields)
  have look: "\<And>j. find (\<lambda>r. c_id r = j) (comments ?db')
      = map_option ?f (find (\<lambda>r. c_id r = j) (comments db))"
    using find_map_key [of c_id ?f, OF key] by simp
  have here: "map_option c_is_approved (find (\<lambda>r. c_id r = i) (comments ?db'))
      = Some (c_is_approved e)"
    using look [of i] assms(1) ci by (simp add: c_update_from_entity_fields)
  have other: "\<forall>j. j \<noteq> i \<longrightarrow>
      find (\<lambda>r. c_id r = j) (comments ?db') = find (\<lambda>r. c_id r = j) (comments db)"
  proof (intro allI impI)
    fix j assume ne: "j \<noteq> i"
    show "find (\<lambda>r. c_id r = j) (comments ?db') = find (\<lambda>r. c_id r = j) (comments db)"
    proof (cases "find (\<lambda>r. c_id r = j) (comments db)")
      case None
      then show ?thesis using look [of j] by simp
    next
      case (Some y)
      then have "c_id y = j" by (rule find_key_Some)
      then show ?thesis using look [of j] Some ne by simp
    qed
  qed
  show ?thesis
    using res ids here other by (simp add: c_update_from_entity_fields ci)
qed

text \<open>One iteration of the loop, on an id that is stored and on one that is not.\<close>

lemma moderate_step_present:
  assumes "find (\<lambda>r. c_id r = i) (comments db) = Some c"
  shows "\<exists>c' db'. (if action = ''approve'' then approve_comment db i t else reject_comment db i t)
        = (Inr c', db') \<and> c_id c' = i
      \<and> map c_id (comments db') = map c_id (comments db)
      \<and> map_option c_is_approved (find (\<lambda>r. c_id r = i) (comments db'))
          = Some (action = ''approve'')
      \<and> (\<forall>j. j \<noteq> i \<longrightarrow> find (\<lambda>r. c_id r = j) (comments db') = find (\<lambda>r. c_id r = j) (comments db))"
proof -
  have ci: "c_id c = i"
    using assms by (rule find_key_Some)
  show ?thesis
  proof (cases "action = ''approve''")
    case True
    have e: "c_id (approve c t) = i" using ci by (simp add: approve_flag)
    have call: "approve_comment db i t = comment_repo_update db (approve c t)"
      using assms
      by (simp add: approve_comment_def get_comment_by_id_def comment_repo_get_by_id_def)
    show ?thesis
      using comment_repo_update_present [OF assms e] True call by (simp add: approve_flag)
  next
    case False
    have e: "c_id (reject c t) = i" using ci by (simp add: reject_flag)
    have call: "reject_comment db i t = comment_repo_update db (reject c t)"
      using assms
      by (simp add: reject_comment_def get_comment_by_id_def comment_repo_get_by_id_def)
    show ?thesis
      using comment_repo_update_present [OF assms e] False call by (simp add: reject_flag)
  qed
qed

lemma moderate_step_missing:
  assumes "find (\<lambda>r. c_id r = i) (comments db) = None"
  shows "(if action = ''approve'' then approve_comment db i t else reject_comment db i t)
      = (Inl (CommentNotFoundError i), db)"
  using assms
  by (simp add: approve_comment_def reject_comment_def get_comment_by_id_def
        comment_repo_get_by_id_def)

text \<open>
  The loop on a list of stored ids followed by an id that is not stored: the stored ids
  are moderated in order, the loop stops at the missing id with the database as the
  moderation of the stored ids left it.
\<close>

lemma moderate_loop_prefix:
  assumes "set pre \<subseteq> c_id ` set (comments db)" and "bad \<notin> c_id ` set (comments db)"
  shows "\<exists>cs db'. moderate_loop db pre action clock acc = (Inr (acc @ cs), db')
      \<and> map c_id cs = pre
      \<and> map c_id (comments db') = map c_id (comments db)
      \<and> (\<forall>i \<in> set pre. map_option c_is_approved (find (\<lambda>r. c_id r = i) (comments db'))
            = Some (action = ''approve''))
      \<and> (\<forall>j. j \<notin> set pre \<longrightarrow>
            find (\<lambda>r. c_id r = j) (comments db') = find (\<lambda>r. c_id r = j) (comments db))
      \<and> moderate_loop db (pre @ bad # post) action clock acc
          = (Inl (CommentNotFoundError bad), db')"
  using assms
proof (induction pre arbitrary: db clock acc)
  case Nil
  have "find (\<lambda>r. c_id r = bad) (comments db) = None"
    using Nil.prems(2) by (simp add: find_key_None)
  then show ?case
    using moderate_step_missing [of bad db action "clock 0"] by simp
next
  case (Cons i pre)
  have "i \<in> c_id ` set (comments db)"
    using Cons.prems(1) by simp
  then have "find (\<lambda>r. c_id r = i) (comments db) \<noteq> None"
    by (simp add: find_key_None)
  then obtain c where found: "find (\<lambda>r. c_id r = i) (comments db) = Some c"
    by auto
  from moderate_step_present [OF found, of action "clock 0"]
  obtain c' db1 where
    step: "(if action = ''approve'' then approve_comment db i (clock 0)
            else reject_comment db i (clock 0)) = (Inr c', db1)"
    and c'_id: "c_id c' = i"
    and ids1: "map c_id (comments db1) = map c_id (comments db)"
    and flag1: "map_option c_is_approved (find (\<lambda>r. c_id r = i) (comments db1))
                  = Some (action = ''approve'')"
    and other1: "\<forall>j. j \<noteq> i \<longrightarrow>
                  find (\<lambda>r. c_id r = j) (comments db1) = find (\<lambda>r. c_id r = j) (comments db)"
    by blast
  have same_ids: "c_id ` set (comments db1) = c_id ` set (comments db)"
    using ids1 by (metis list.set_map)
  have pre1: "set pre \<subseteq> c_id ` set (comments db1)"
    using Cons.prems(1) same_ids by simp
  have bad1: "bad \<notin> c_id ` set (comments db1)"
    using Cons.prems(2) same_ids by simp
  from Cons.IH [OF pre1 bad1, of "\<lambda>k. clock (Suc k)" "acc @ [c']"]
  obtain cs db' where
    run: "moderate_loop db1 pre action (\<lambda>k. clock (Suc k)) (acc @ [c']) = (Inr ((acc @ [c']) @ cs), db')"
    and cs_ids: "map c_id cs = pre"
    and ids': "map c_id (comments db') = map c_id (comments db1)"
    and flags: "\<forall>i \<in> set pre. map_option c_is_approved (find (\<lambda>r. c_id r = i) (comments db'))
                  = Some (action = ''approve'')"
    and others: "\<forall>j. j \<notin> set pre \<longrightarrow>
                  find (\<lambda>r. c_id r = j) (comments db') = find (\<lambda>r. c_id r = j) (comments db1)"
    and stop: "moderate_loop db1 (pre @ bad # post) action (\<lambda>k. clock (Suc k)) (acc @ [c'])
                = (Inl (CommentNotFoundError bad), db')"
    by blast
  have r1: "moderate_loop db (i # pre) action clock acc = (Inr (acc @ (c' # cs)), db')"
    using step run by simp
  have r2: "map c_id (c' # cs) = i # pre"
    using c'_id cs_ids by simp
  have r3: "map c_id (comments db') = map c_id (comments db)"
    using ids' ids1 by simp
  have r4: "\<forall>j \<in> set (i # pre). map_option c_is_approved (find (\<lambda>r. c_id r = j) (comments db'))
              = Some (action = ''approve'')"
  proof
    fix j assume "j \<in> set (i # pre)"
    show "map_option c_is_approved (find (\<lambda>r. c_id r = j) (comments db'))
            = Some (action = ''approve'')"
    proof (cases "j \<in> set pre")
      case True
      then show ?thesis using flags by simp
    next
      case False
      with \<open>j \<in> set (i # pre)\<close> have "j = i" by simp
      then show ?thesis using False others flag1 by simp
    qed
  qed
  have r5: "\<forall>j. j \<notin> set (i # pre) \<longrightarrow>
              find (\<lambda>r. c_id r = j) (comments db') = find (\<lambda>r. c_id r = j) (comments db)"
    using others other1 by simp
  have r6: "moderate_loop db ((i # pre) @ bad # post) action clock acc
              = (Inl (CommentNotFoundError bad), db')"
    using step stop by simp
  show ?case
  proof (intro exI conjI)
    show "moderate_loop db (i # pre) action clock acc = (Inr (acc @ (c' # cs)), db')"
      by (rule r1)
    show "map c_id (c' # cs) = i # pre"
      by (rule r2)
    show "map c_id (comments db') = map c_id (comments db)"
      by (rule r3)
    show "\<forall>j \<in> set (i # pre). map_option c_is_approved (find (\<lambda>r. c_id r = j) (comments db'))
              = Some (action = ''approve'')"
      by (rule r4)
    show "\<forall>j. j \<notin> set (i # pre) \<longrightarrow>
              find (\<lambda>r. c_id r = j) (comments db') = find (\<lambda>r. c_id r = j) (comments db)"
      by (rule r5)
    show "moderate_loop db ((i # pre) @ bad # post) action clock acc
              = (Inl (CommentNotFoundError bad), db')"
      by (rule r6)
  qed
qed

text \<open>
  C7.  For an action \<open>approve\<close> or \<open>reject\<close>, a list of ids of stored comments followed by
  an id that is not stored and by any further ids: \<open>moderate_comments_batch\<close> raises
  \<open>CommentNotFoundError\<close> for the missing id; the database it leaves is the one the same
  call on the stored ids alone leaves (the ids after the missing one are not reached, and
  nothing is rolled back); in it every one of the stored ids has the approval flag of the
  action, and the comments whose id is not in the list are as before.  The call on the
  stored ids alone returns the moderated comments in the order of the list.
\<close>

theorem moderate_batch_fails_fast_without_rollback:
  assumes "action = ''approve'' \<or> action = ''reject''"
    and "set pre \<subseteq> c_id ` set (comments db)"
    and "bad \<notin> c_id ` set (comments db)"
  shows "fst (moderate_comments_batch db (pre @ bad # post) action clock)
           = Inl (CommentNotFoundError bad)
    \<and> snd (moderate_comments_batch db (pre @ bad # post) action clock)
           = snd (moderate_comments_batch db pre action clock)
    \<and> (\<exists>cs. fst (moderate_comments_batch db pre action clock) = Inr cs \<and> map c_id cs = pre)
    \<and> (\<forall>i \<in> set pre.
          map_option c_is_approved
            (find (\<lambda>r. c_id r = i)
               (comments (snd (moderate_comments_batch db (pre @ bad # post) action clock))))
          = Some (action = ''approve''))
    \<and> (\<forall>j. j \<notin> set pre \<longrightarrow>
          find (\<lambda>r. c_id r = j)
            (comments (snd (moderate_comments_batch db (pre @ bad # post) action clock)))
          = find (\<lambda>r. c_id r = j) (comments db))"
proof -
  from moderate_loop_prefix [OF assms(2,3), of action clock "[]" post]
  obtain cs db' where
    run: "moderate_loop db pre action clock [] = (Inr cs, db')"
    and cs_ids: "map c_id cs = pre"
    and flags: "\<forall>i \<in> set pre. map_option c_is_approved (find (\<lambda>r. c_id r = i) (comments db'))
                  = Some (action = ''approve'')"
    and others: "\<forall>j. j \<notin> set pre \<longrightarrow>
                  find (\<lambda>r. c_id r = j) (comments db') = find (\<lambda>r. c_id r = j) (comments db)"
    and stop: "moderate_loop db (pre @ bad # post) action clock []
                = (Inl (CommentNotFoundError bad), db')"
    by auto
  have valid: "action \<in> set [''approve'', ''reject'']"
    using assms(1) by auto
  have full: "moderate_comments_batch db (pre @ bad # post) action clock
      = (Inl (CommentNotFoundError bad), db')"
    using valid stop by (simp only: moderate_comments_batch_def if_not_P not_not)
  have part: "moderate_comments_batch db pre action clock = (Inr cs, db')"
    using valid run by (simp only: moderate_comments_batch_def if_not_P not_not)
  show ?thesis
    using cs_ids flags others by (simp add: full part)
qed

text \<open>
  The example of the specification: \<open>c1\<close> and \<open>c2\<close> are stored and not approved, \<open>c9\<close> is
  not stored.  The call with \<open>[c1, c2, c9]\<close> and \<open>approve\<close> raises, and \<open>c1\<close> and \<open>c2\<close>
  are approved afterwards.
\<close>

theorem moderate_batch_fails_fast_without_rollback_witness:
  "map c_id (comments db1) = [''c1'', ''c2'', ''c3'']
   \<and> map c_is_approved (comments db1) = [False, False, True]
   \<and> fst (moderate_comments_batch db1 ([''c1'', ''c2''] @ ''c9'' # []) ''approve'' (\<lambda>k. 10 + int k))
       = Inl (CommentNotFoundError ''c9'')
   \<and> map c_is_approved
        (comments (snd (moderate_comments_batch db1 ([''c1'', ''c2''] @ ''c9'' # []) ''approve''
                          (\<lambda>k. 10 + int k))))
       = [True, True, True]
   \<and> map c_updated_at
        (comments (snd (moderate_comments_batch db1 ([''c1'', ''c2''] @ ''c9'' # []) ''approve''
                          (\<lambda>k. 10 + int k))))
       = [10, 11, 6]"
proof -
  have ids: "map c_id (comments db1) = [''c1'', ''c2'', ''c3'']" by code_simp
  have before: "map c_is_approved (comments db1) = [False, False, True]" by code_simp
  have act: "''approve'' = ''approve'' \<or> ''approve'' = ''reject''" by simp
  have img: "c_id ` set (comments db1) = set [''c1'', ''c2'', ''c3'']"
    by (simp only: list.set_map [symmetric] ids)
  have stored: "set [''c1'', ''c2''] \<subseteq> c_id ` set (comments db1)"
    unfolding img by simp
  have missing: "''c9'' \<notin> c_id ` set (comments db1)"
    unfolding img by simp
  have raised: "fst (moderate_comments_batch db1 ([''c1'', ''c2''] @ ''c9'' # []) ''approve''
                       (\<lambda>k. 10 + int k)) = Inl (CommentNotFoundError ''c9'')"
    by (rule moderate_batch_fails_fast_without_rollback
          [OF act stored missing, THEN conjunct1])
  have after: "map c_is_approved
        (comments (snd (moderate_comments_batch db1 ([''c1'', ''c2''] @ ''c9'' # []) ''approve''
                          (\<lambda>k. 10 + int k))))
       = [True, True, True]"
    by code_simp
  have stamps: "map c_updated_at
        (comments (snd (moderate_comments_batch db1 ([''c1'', ''c2''] @ ''c9'' # []) ''approve''
                          (\<lambda>k. 10 + int k))))
       = [10, 11, 6]"
    by code_simp
  from ids before raised after stamps show ?thesis by (intro conjI)
qed

section \<open>Deleting a blog post\<close>






section \<open>Timestamps\<close>

lemma BlogPost_init_fields:
  "BlogPost_init title content new_id t1 t2 = Inr p
   \<Longrightarrow> bp_title p = title \<and> bp_content p = content \<and> bp_id p = new_id
       \<and> bp_created_at p = t1 \<and> bp_updated_at p = t2 \<and> bp_comment_ids p = []"
  unfolding BlogPost_init_def bp_validate_title_def bp_validate_content_def Let_def
  by (simp split: if_splits) auto

lemma Comment_init_fields:
  "Comment_init content blog_post_id new_id author_name author_email t1 t2 approved = Inr c
   \<Longrightarrow> c_created_at c = t1 \<and> c_updated_at c = t2 \<and> c_id c = new_id
       \<and> c_blog_post_id c = blog_post_id \<and> c_is_approved c = approved"
  unfolding Comment_init_def c_validate_content_def c_validate_author_name_def
    c_validate_author_email_def Let_def
  by (simp split: if_splits) auto

lemma bp_apply_timestamps:
  assumes "bp_created_at p \<le> bp_updated_at p" and "bp_created_at p \<le> now"
  shows "bp_created_at (snd (bp_apply p op now)) = bp_created_at p
     \<and> bp_created_at (snd (bp_apply p op now)) \<le> bp_updated_at (snd (bp_apply p op now))"
proof (cases op)
  case (UpdateTitle t)
  then show ?thesis
    using assms update_title_cases [of p t now]
    by (cases "fst (update_title p t now)") auto
next
  case (BpUpdateContent t)
  then show ?thesis
    using assms bp_update_content_cases [of p t now]
    by (cases "fst (bp_update_content p t now)") auto
qed (use assms in \<open>simp_all add: add_comment_id_def remove_comment_id_def\<close>)

lemma c_apply_timestamps:
  assumes "c_created_at c \<le> c_updated_at c" and "c_created_at c \<le> now"
  shows "c_created_at (snd (c_apply c op now)) = c_created_at c
     \<and> c_created_at (snd (c_apply c op now)) \<le> c_updated_at (snd (c_apply c op now))"
proof (cases op)
  case (CUpdateContent t)
  then show ?thesis
    using assms c_update_content_cases [of c t now]
    by (cases "fst (c_update_content c t now)") auto
next
  case (UpdateAuthorInfo n m)
  then show ?thesis
    using assms update_author_info_cases [of c n m now]
    by (cases "fst (update_author_info c n m now)") auto
qed (use assms in \<open>simp_all add: approve_def reject_def\<close>)

lemma u_apply_timestamps:
  assumes "u_created_at u \<le> u_updated_at u" and "u_created_at u \<le> now"
  shows "u_created_at (snd (u_apply u op now)) = u_created_at u
     \<and> u_created_at (snd (u_apply u op now)) \<le> u_updated_at (snd (u_apply u op now))"
proof (cases op)
  case (UpdateUsername t)
  then show ?thesis
    using assms update_username_cases [of u t now]
    by (cases "fst (update_username u t now)") auto
next
  case (UpdateEmail t)
  then show ?thesis
    using assms update_email_cases [of u t now]
    by (cases "fst (update_email u t now)") auto
next
  case (UpdatePasswordHash t)
  then show ?thesis
    using assms update_password_hash_cases [of u t now]
    by (cases "fst (update_password_hash u t now)") auto
next
  case (UpdateFullName t)
  then show ?thesis
    using assms update_full_name_cases [of u t now]
    by (cases "fst (update_full_name u t now)") auto
qed (use assms in \<open>simp_all add: activate_def deactivate_def make_superuser_def remove_superuser_def\<close>)

text \<open>What each operation does to the two timestamps.\<close>

lemma bp_apply_effect:
  "(fst (bp_apply p op now) = Inl e \<longrightarrow> snd (bp_apply p op now) = p)
   \<and> (fst (bp_apply p op now) = Inr () \<longrightarrow>
        bp_created_at (snd (bp_apply p op now)) = bp_created_at p
        \<and> bp_updated_at (snd (bp_apply p op now)) = now)"
proof (cases op)
  case (UpdateTitle t)
  then show ?thesis
    using update_title_cases [of p t now e] by simp
next
  case (BpUpdateContent t)
  then show ?thesis
    using bp_update_content_cases [of p t now e] by simp
qed (simp_all add: add_comment_id_def remove_comment_id_def)

lemma c_apply_effect:
  "(fst (c_apply c op now) = Inl e \<longrightarrow> snd (c_apply c op now) = c)
   \<and> ((op = Approve \<and> c_is_approved c) \<or> (op = Reject \<and> \<not> c_is_approved c) \<longrightarrow>
        c_apply c op now = (Inr (), c))
   \<and> (\<not> ((op = Approve \<and> c_is_approved c) \<or> (op = Reject \<and> \<not> c_is_approved c)) \<longrightarrow>
        fst (c_apply c op now) = Inr () \<longrightarrow>
        c_created_at (snd (c_apply c op now)) = c_created_at c
        \<and> c_updated_at (snd (c_apply c op now)) = now)"
proof (cases op)
  case (CUpdateContent t)
  then show ?thesis
    using c_update_content_cases [of c t now e] by simp
next
  case (UpdateAuthorInfo n m)
  then show ?thesis
    using update_author_info_cases [of c n m now e] by simp
qed (simp_all add: approve_def reject_def)

lemma u_apply_effect:
  "(fst (u_apply u op now) = Inl e \<longrightarrow> snd (u_apply u op now) = u)
   \<and> ((op = Activate \<and> u_is_active u) \<or> (op = Deactivate \<and> \<not> u_is_active u)
        \<or> (op = MakeSuperuser \<and> u_is_active u \<and> u_is_superuser u)
        \<or> (op = RemoveSuperuser \<and> \<not> u_is_superuser u) \<longrightarrow>
        u_apply u op now = (Inr (), u))
   \<and> (\<not> ((op = Activate \<and> u_is_active u) \<or> (op = Deactivate \<and> \<not> u_is_active u)
           \<or> (op = MakeSuperuser \<and> u_is_active u \<and> u_is_superuser u)
           \<or> (op = RemoveSuperuser \<and> \<not> u_is_superuser u)) \<longrightarrow>
        fst (u_apply u op now) = Inr () \<longrightarrow>
        u_created_at (snd (u_apply u op now)) = u_created_at u
        \<and> u_updated_at (snd (u_apply u op now)) = now)"
proof (cases op)
  case (UpdateUsername t)
  then show ?thesis
    using update_username_cases [of u t now e] by simp
next
  case (UpdateEmail t)
  then show ?thesis
    using update_email_cases [of u t now e] by simp
next
  case (UpdatePasswordHash t)
  then show ?thesis
    using update_password_hash_cases [of u t now e] by simp
next
  case (UpdateFullName t)
  then show ?thesis
    using update_full_name_cases [of u t now e] by simp
qed (simp_all add: activate_def deactivate_def make_superuser_def remove_superuser_def)

text \<open>
  C9 as stated fails at construction.  The constructor of an entity takes \<open>created_at\<close>
  and \<open>updated_at\<close> as they are given (by default two readings of the clock) and checks
  neither: a post constructed with \<open>created_at = 9\<close> and \<open>updated_at = 2\<close> is accepted
  and has \<open>updated_at\<close> before \<open>created_at\<close>.
\<close>

theorem constructor_accepts_backwards_timestamps:
  "BlogPost_init ''Hello'' ''World'' ''p1'' 9 2
     = Inr (p0\<lparr>bp_created_at := 9, bp_updated_at := 2\<rparr>)
   \<and> \<not> bp_created_at (p0\<lparr>bp_created_at := 9, bp_updated_at := 2\<rparr>)
        \<le> bp_updated_at (p0\<lparr>bp_created_at := 9, bp_updated_at := 2\<rparr>)"
  by code_simp

text \<open>
  C9, amended.  For \<open>BlogPost\<close>, \<open>Comment\<close> and \<open>User\<close>:
  \<^item> the constructor, when it returns, stores the two timestamps it is given, so
    \<open>created_at \<le> updated_at\<close> holds at construction exactly when it holds of them;
  \<^item> an operation that raises leaves the entity as it was;
  \<^item> \<open>approve\<close>, \<open>reject\<close>, \<open>activate\<close>, \<open>deactivate\<close>, \<open>make_superuser\<close> and
    \<open>remove_superuser\<close> on an entity whose flag already has the target value return and
    leave the entity as it was;
  \<^item> every other operation that returns leaves \<open>created_at\<close> as it was and sets
    \<open>updated_at\<close> to the current time;
  \<^item> so every operation whose clock reading is not before \<open>created_at\<close> leaves \<open>created_at\<close>
    as it was and keeps \<open>created_at \<le> updated_at\<close>.
\<close>

theorem timestamps_of_constructors_and_operations:
  "(BlogPost_init title content new_id t1 t2 = Inr p' \<longrightarrow>
      bp_created_at p' = t1 \<and> bp_updated_at p' = t2)
   \<and> (Comment_init content blog_post_id new_id author_name author_email t1 t2 approved = Inr c'
        \<longrightarrow> c_created_at c' = t1 \<and> c_updated_at c' = t2)
   \<and> (User_init username email password_hash new_id full_name is_active is_superuser t1 t2
          = Inr u'
        \<longrightarrow> u_created_at u' = t1 \<and> u_updated_at u' = t2)
   \<and> (fst (bp_apply p bop now) = Inl e \<longrightarrow> snd (bp_apply p bop now) = p)
   \<and> (fst (bp_apply p bop now) = Inr () \<longrightarrow>
        bp_created_at (snd (bp_apply p bop now)) = bp_created_at p
        \<and> bp_updated_at (snd (bp_apply p bop now)) = now)
   \<and> (fst (c_apply c cop now) = Inl e \<longrightarrow> snd (c_apply c cop now) = c)
   \<and> ((cop = Approve \<and> c_is_approved c) \<or> (cop = Reject \<and> \<not> c_is_approved c) \<longrightarrow>
        c_apply c cop now = (Inr (), c))
   \<and> (\<not> ((cop = Approve \<and> c_is_approved c) \<or> (cop = Reject \<and> \<not> c_is_approved c)) \<longrightarrow>
        fst (c_apply c cop now) = Inr () \<longrightarrow>
        c_created_at (snd (c_apply c cop now)) = c_created_at c
        \<and> c_updated_at (snd (c_apply c cop now)) = now)
   \<and> (fst (u_apply u uop now) = Inl e \<longrightarrow> snd (u_apply u uop now) = u)
   \<and> ((uop = Activate \<and> u_is_active u) \<or> (uop = Deactivate \<and> \<not> u_is_active u)
        \<or> (uop = MakeSuperuser \<and> u_is_active u \<and> u_is_superuser u)
        \<or> (uop = RemoveSuperuser \<and> \<not> u_is_superuser u) \<longrightarrow>
        u_apply u uop now = (Inr (), u))
   \<and> (\<not> ((uop = Activate \<and> u_is_active u) \<or> (uop = Deactivate \<and> \<not> u_is_active u)
           \<or> (uop = MakeSuperuser \<and> u_is_active u \<and> u_is_superuser u)
           \<or> (uop = RemoveSuperuser \<and> \<not> u_is_superuser u)) \<longrightarrow>
        fst (u_apply u uop now) = Inr () \<longrightarrow>
        u_created_at (snd (u_apply u uop now)) = u_created_at u
        \<and> u_updated_at (snd (u_apply u uop now)) = now)
   \<and> (bp_created_at p \<le> bp_updated_at p \<longrightarrow> bp_created_at p \<le> now \<longrightarrow>
        bp_created_at (snd (bp_apply p bop now)) = bp_created_at p
        \<and> bp_created_at (snd (bp_apply p bop now)) \<le> bp_updated_at (snd (bp_apply p bop now)))
   \<and> (c_created_at c \<le> c_updated_at c \<longrightarrow> c_created_at c \<le> now \<longrightarrow>
        c_created_at (snd (c_apply c cop now)) = c_created_at c
        \<and> c_created_at (snd (c_apply c cop now)) \<le> c_updated_at (snd (c_apply c cop now)))
   \<and> (u_created_at u \<le> u_updated_at u \<longrightarrow> u_created_at u \<le> now \<longrightarrow>
        u_created_at (snd (u_apply u uop now)) = u_created_at u
        \<and> u_created_at (snd (u_apply u uop now)) \<le> u_updated_at (snd (u_apply u uop now)))"
proof -
  have k1: "BlogPost_init title content new_id t1 t2 = Inr p' \<longrightarrow>
      bp_created_at p' = t1 \<and> bp_updated_at p' = t2"
    using BlogPost_init_fields [of title content new_id t1 t2 p'] by simp
  have k2: "Comment_init content blog_post_id new_id author_name author_email t1 t2 approved
      = Inr c' \<longrightarrow> c_created_at c' = t1 \<and> c_updated_at c' = t2"
    using Comment_init_fields
      [of content blog_post_id new_id author_name author_email t1 t2 approved c'] by simp
  have k3: "User_init username email password_hash new_id full_name is_active is_superuser t1 t2
      = Inr u' \<longrightarrow> u_created_at u' = t1 \<and> u_updated_at u' = t2"
    using User_init_fields
      [of username email password_hash new_id full_name is_active is_superuser t1 t2 u'] by simp
  note b = bp_apply_effect [of p bop now e]
  note c = c_apply_effect [of c cop now e]
  note u = u_apply_effect [of u uop now e]
  have m1: "bp_created_at p \<le> bp_updated_at p \<longrightarrow> bp_created_at p \<le> now \<longrightarrow>
        bp_created_at (snd (bp_apply p bop now)) = bp_created_at p
        \<and> bp_created_at (snd (bp_apply p bop now)) \<le> bp_updated_at (snd (bp_apply p bop now))"
    by (intro impI) (rule bp_apply_timestamps, assumption+)
  have m2: "c_created_at c \<le> c_updated_at c \<longrightarrow> c_created_at c \<le> now \<longrightarrow>
        c_created_at (snd (c_apply c cop now)) = c_created_at c
        \<and> c_created_at (snd (c_apply c cop now)) \<le> c_updated_at (snd (c_apply c cop now))"
    by (intro impI) (rule c_apply_timestamps, assumption+)
  have m3: "u_created_at u \<le> u_updated_at u \<longrightarrow> u_created_at u \<le> now \<longrightarrow>
        u_created_at (snd (u_apply u uop now)) = u_created_at u
        \<and> u_created_at (snd (u_apply u uop now)) \<le> u_updated_at (snd (u_apply u uop now))"
    by (intro impI) (rule u_apply_timestamps, assumption+)
  show ?thesis
    by (intro conjI k1 k2 k3 b [THEN conjunct1] b [THEN conjunct2]
          c [THEN conjunct1] c [THEN conjunct2, THEN conjunct1] c [THEN conjunct2, THEN conjunct2]
          u [THEN conjunct1] u [THEN conjunct2, THEN conjunct1] u [THEN conjunct2, THEN conjunct2]
          m1 m2 m3)
qed

text \<open>
  Instances.  The post built with the timestamps 1 and 2 has them; its title updated at
  reading 7 gives \<open>updated_at = 7\<close> and the same \<open>created_at\<close>; a blank title at reading 8
  raises and changes nothing.  \<open>approve\<close> on the approved comment \<open>c0\<close> changes nothing;
  \<open>activate\<close> on the inactive user \<open>bob\<close> at reading 9 sets \<open>updated_at\<close> to 9.
\<close>

theorem timestamps_of_constructors_and_operations_witness:
  "BlogPost_init ''Hello'' ''World'' ''p1'' 1 2 = Inr p0
   \<and> bp_created_at p0 = 1 \<and> bp_updated_at p0 = 2
   \<and> fst (bp_apply p0 (UpdateTitle ''News'') 7) = Inr ()
   \<and> bp_created_at (snd (bp_apply p0 (UpdateTitle ''News'') 7)) = bp_created_at p0
   \<and> bp_updated_at (snd (bp_apply p0 (UpdateTitle ''News'') 7)) = 7
   \<and> fst (bp_apply p0 (UpdateTitle ''  '') 8) = Inl (ValueError ''Title cannot be empty'')
   \<and> snd (bp_apply p0 (UpdateTitle ''  '') 8) = p0
   \<and> c_is_approved c0 \<and> c_apply c0 Approve 9 = (Inr (), c0)
   \<and> fst (u_apply bob Activate 9) = Inr ()
   \<and> u_created_at (snd (u_apply bob Activate 9)) = u_created_at bob
   \<and> u_updated_at (snd (u_apply bob Activate 9)) = 9
   \<and> bp_created_at (snd (bp_apply p0 (UpdateTitle ''News'') 7))
        \<le> bp_updated_at (snd (bp_apply p0 (UpdateTitle ''News'') 7))"
proof -
  note inst = timestamps_of_constructors_and_operations
  have init: "BlogPost_init ''Hello'' ''World'' ''p1'' 1 2 = Inr p0" by code_simp
  have stored: "bp_created_at p0 = 1 \<and> bp_updated_at p0 = 2"
    by (rule inst [THEN conjunct1, THEN mp, OF init])
  have ok: "fst (bp_apply p0 (UpdateTitle ''News'') 7) = Inr ()" by code_simp
  have set: "bp_created_at (snd (bp_apply p0 (UpdateTitle ''News'') 7)) = bp_created_at p0
      \<and> bp_updated_at (snd (bp_apply p0 (UpdateTitle ''News'') 7)) = 7"
    by (rule inst [THEN conjunct2, THEN conjunct2, THEN conjunct2, THEN conjunct2,
          THEN conjunct1, THEN mp, OF ok])
  have bad: "fst (bp_apply p0 (UpdateTitle ''  '') 8) = Inl (ValueError ''Title cannot be empty'')"
    by code_simp
  have same: "snd (bp_apply p0 (UpdateTitle ''  '') 8) = p0"
    by (rule inst [THEN conjunct2, THEN conjunct2, THEN conjunct2, THEN conjunct1,
          THEN mp, OF bad])
  have appr: "c_is_approved c0" by code_simp
  have target: "(Approve = Approve \<and> c_is_approved c0) \<or> (Approve = Reject \<and> \<not> c_is_approved c0)"
    using appr by simp
  have noop: "c_apply c0 Approve 9 = (Inr (), c0)"
    by (rule inst [THEN conjunct2, THEN conjunct2, THEN conjunct2, THEN conjunct2,
          THEN conjunct2, THEN conjunct2, THEN conjunct1, THEN mp, OF target])
  have inactive: "\<not> u_is_active bob" by code_simp
  have flips: "\<not> ((Activate = Activate \<and> u_is_active bob)
      \<or> (Activate = Deactivate \<and> \<not> u_is_active bob)
      \<or> (Activate = MakeSuperuser \<and> u_is_active bob \<and> u_is_superuser bob)
      \<or> (Activate = RemoveSuperuser \<and> \<not> u_is_superuser bob))"
    using inactive by simp
  have act: "fst (u_apply bob Activate 9) = Inr ()" by code_simp
  have stamped: "u_created_at (snd (u_apply bob Activate 9)) = u_created_at bob
      \<and> u_updated_at (snd (u_apply bob Activate 9)) = 9"
    by (rule inst [THEN conjunct2, THEN conjunct2, THEN conjunct2, THEN conjunct2,
          THEN conjunct2, THEN conjunct2, THEN conjunct2, THEN conjunct2, THEN conjunct2,
          THEN conjunct2, THEN conjunct1, THEN mp, THEN mp, OF flips act])
  have inv: "bp_created_at p0 \<le> bp_updated_at p0" using stored by simp
  have later: "bp_created_at p0 \<le> 7" using stored by simp
  have kept: "bp_created_at (snd (bp_apply p0 (UpdateTitle ''News'') 7)) = bp_created_at p0
      \<and> bp_created_at (snd (bp_apply p0 (UpdateTitle ''News'') 7))
          \<le> bp_updated_at (snd (bp_apply p0 (UpdateTitle ''News'') 7))"
    by (rule inst [THEN conjunct2, THEN conjunct2, THEN conjunct2, THEN conjunct2,
          THEN conjunct2, THEN conjunct2, THEN conjunct2, THEN conjunct2, THEN conjunct2,
          THEN conjunct2, THEN conjunct2, THEN conjunct1, THEN mp, THEN mp, OF inv later])
  from init stored ok set bad same appr noop act stamped kept
  show ?thesis by (intro conjI) (erule conjunct1 conjunct2 | assumption)+
qed

section \<open>Comment approval is idempotent\<close>

text \<open>
  C10.  \<open>Comment.approve\<close> on a comment that is already approved leaves every field as it
  was, \<open>updated_at\<close> included, and so does \<open>Comment.reject\<close> on a comment that is not
  approved; when the flag does flip, the call sets it and stores the clock reading in
  \<open>updated_at\<close>, changing nothing else.
\<close>

theorem approve_reject_noop:
  "(c_is_approved c \<longrightarrow> approve c now = c)
   \<and> (\<not> c_is_approved c \<longrightarrow> reject c now = c)
   \<and> (\<not> c_is_approved c \<longrightarrow> approve c now = c\<lparr>c_is_approved := True, c_updated_at := now\<rparr>)
   \<and> (c_is_approved c \<longrightarrow> reject c now = c\<lparr>c_is_approved := False, c_updated_at := now\<rparr>)"
  by (simp add: approve_def reject_def)

theorem approve_reject_noop_witness:
  "c_is_approved c0 \<and> approve c0 9 = c0
   \<and> reject c0 9 = c0\<lparr>c_is_approved := False, c_updated_at := 9\<rparr>
   \<and> \<not> c_is_approved (reject c0 9) \<and> reject (reject c0 9) 11 = reject c0 9
   \<and> approve (reject c0 9) 11 = c0\<lparr>c_updated_at := 11\<rparr>"
  using approve_reject_noop [of c0 9] approve_reject_noop [of "reject c0 9" 11]
  by (simp add: c0_def)

end
